theory Spec2Isabelle
  imports Main "HOL-Library.Word" "HOL-Library.AList"
begin

unbundle bit_operations_syntax

section \<open>Errors, bytes and struct packing\<close>

text \<open>
  Every \<^verbatim>\<open>raise\<close> of the source, and every exception the Python run time raises on
  the paths modelled here, is a constructor. The first nine are the \<^verbatim>\<open>ValueError\<close>s of
  the source, told apart by their raise site:
  \<^item> \<open>BadWordSize\<close>: page.py, "writing with incompatible word size";
  \<^item> \<open>OutOfRange\<close>: page.py, "start offset is out of range";
  \<^item> \<open>UnknownRangeType\<close>: page.py and cache.py, unrecognised \<^verbatim>\<open>range_type\<close>;
  \<^item> \<open>WritePageOutOfBound\<close>: disk_helper.py, "Write Page Out of Bound";
  \<^item> \<open>FileSizeNotMultiple\<close>: disk_helper.py, "File size is not a multiple of PAGESIZE";
  \<^item> \<open>DuplicateKey\<close>: index.py, "Cannot update to primary key ... that already exists!";
  \<^item> \<open>OldKeyMissing\<close>: index.py, "Index Error: old key not exist";
  \<^item> \<open>IncompatibleColumns\<close>: index.py, "Map Insert incompatible num columns";
  \<^item> \<open>NotIndexed\<close>: index.py, "Index hasn't been built for this column yet!".
  The others are Python's own: \<^verbatim>\<open>struct.error\<close>, \<^verbatim>\<open>TypeError\<close>, \<^verbatim>\<open>IndexError\<close>,
  \<^verbatim>\<open>KeyError\<close>, \<^verbatim>\<open>ZeroDivisionError\<close>, \<^verbatim>\<open>FileNotFoundError\<close>, the \<^verbatim>\<open>ValueError\<close> of
  \<^verbatim>\<open>list.remove\<close> on a missing element, and \<^verbatim>\<open>AttributeError\<close>.
\<close>

datatype error =
    BadWordSize | OutOfRange | UnknownRangeType | WritePageOutOfBound
  | FileSizeNotMultiple | DuplicateKey | OldKeyMissing | IncompatibleColumns | NotIndexed
  | StructError | TypeError | IndexError | KeyError | ZeroDivisionError | FileNotFoundError
  | ListRemoveError | AttributeError

type_synonym byte = "8 word"
type_synonym bytes = "byte list"

text \<open>
  Modelled from the spec: \<^verbatim>\<open>lstore/config.py\<close> is not among the sources. The spec gives
  \<^verbatim>\<open>WORDSIZE\<close> as 8 bytes, which the struct formats \<^verbatim>\<open>'Q'\<close>, \<^verbatim>\<open>'q'\<close> and \<^verbatim>\<open>'II'\<close> of the code
  force as well. \<^verbatim>\<open>PAGESIZE\<close>, \<^verbatim>\<open>CACHE_SIZE\<close> and \<^verbatim>\<open>MERGE_EPOCH\<close> are configurable;
  they are parameters of the functions that use them.
\<close>

definition WORDSIZE :: nat where
  "WORDSIZE = 8"

text \<open>Little-endian bytes of a number, and back (the byte order the spec fixes).\<close>

fun le_bytes :: "nat \<Rightarrow> nat \<Rightarrow> bytes" where
  "le_bytes 0 n = []"
| "le_bytes (Suc k) n = word_of_nat (n mod 256) # le_bytes k (n div 256)"

fun le_val :: "bytes \<Rightarrow> nat" where
  "le_val [] = 0"
| "le_val (b # bs) = unat b + 256 * le_val bs"

text \<open>\<^verbatim>\<open>pack('Q', n)\<close>: an unsigned 64-bit value; \<^verbatim>\<open>struct.error\<close> out of range.\<close>

definition pack_Q :: "nat \<Rightarrow> error + bytes" where
  "pack_Q n = (if n < 2 ^ 64 then Inr (le_bytes 8 n) else Inl StructError)"

text \<open>\<^verbatim>\<open>pack('q', v)\<close>: a signed 64-bit value in two's complement.\<close>

definition pack_q :: "int \<Rightarrow> error + bytes" where
  "pack_q v = (if - (2 ^ 63) \<le> v \<and> v < 2 ^ 63 then Inr (le_bytes 8 (nat (v mod 2 ^ 64)))
               else Inl StructError)"

text \<open>\<^verbatim>\<open>pack('II', a, b)\<close>: two unsigned 32-bit values.\<close>

definition pack_II :: "nat \<Rightarrow> nat \<Rightarrow> error + bytes" where
  "pack_II a b = (if a < 2 ^ 32 \<and> b < 2 ^ 32 then Inr (le_bytes 4 a @ le_bytes 4 b)
                  else Inl StructError)"

text \<open>\<^verbatim>\<open>unpack\<close> wants exactly 8 bytes, \<^verbatim>\<open>unpack_from\<close> at least 8.\<close>

definition unpack_Q :: "bytes \<Rightarrow> error + nat" where
  "unpack_Q bs = (if length bs = 8 then Inr (le_val bs) else Inl StructError)"

definition unpack_from_Q :: "bytes \<Rightarrow> error + nat" where
  "unpack_from_Q bs = (if 8 \<le> length bs then Inr (le_val (take 8 bs)) else Inl StructError)"

definition unpack_q :: "bytes \<Rightarrow> error + int" where
  "unpack_q bs = (if length bs = 8
     then Inr (if le_val bs < 2 ^ 63 then int (le_val bs) else int (le_val bs) - 2 ^ 64)
     else Inl StructError)"

definition unpack_II :: "bytes \<Rightarrow> error + (nat \<times> nat)" where
  "unpack_II bs = (if length bs = 8 then Inr (le_val (take 4 bs), le_val (drop 4 bs))
                   else Inl StructError)"

text \<open>Python slices: a bound is counted from the end when negative, and clamped.\<close>

definition slice_bound :: "nat \<Rightarrow> int \<Rightarrow> nat" where
  "slice_bound n i = (if i < 0 then nat (max 0 (int n + i)) else min n (nat i))"

definition slice_get :: "'a list \<Rightarrow> int \<Rightarrow> int \<Rightarrow> 'a list" where
  "slice_get xs a b =
     (let s = slice_bound (length xs) a; e = slice_bound (length xs) b
      in take (e - s) (drop s xs))"

text \<open>\<^verbatim>\<open>xs[a:b] = ys\<close> on a bytearray: the slice is replaced by \<open>ys\<close>, whatever its length.\<close>

definition slice_set :: "'a list \<Rightarrow> int \<Rightarrow> int \<Rightarrow> 'a list \<Rightarrow> 'a list" where
  "slice_set xs a b ys =
     (let s = slice_bound (length xs) a; e = max s (slice_bound (length xs) b)
      in take s xs @ ys @ drop e xs)"

section \<open>Page (page.py)\<close>

record Page =
  data :: bytes
  num_records :: nat

definition write_field :: "Page \<Rightarrow> int \<Rightarrow> bytes \<Rightarrow> error + Page" where
  "write_field p start_offset new_word =
     (if length new_word \<noteq> WORDSIZE then Inl BadWordSize
      else Inr (p\<lparr>data := slice_set (data p) start_offset (start_offset + int WORDSIZE) new_word\<rparr>))"

definition read_field :: "nat \<Rightarrow> Page \<Rightarrow> int \<Rightarrow> error + bytes" where
  "read_field PAGESIZE p start_offset =
     (if start_offset < 0 \<or> start_offset + int WORDSIZE > int PAGESIZE then Inl OutOfRange
      else Inr (slice_get (data p) start_offset (start_offset + int WORDSIZE)))"

text \<open>
  \<^verbatim>\<open>Page.__init__(range_type='', data=bytes(0))\<close>: a buffer of \<^verbatim>\<open>PAGESIZE\<close> bytes is wrapped
  and its counter read from word 0; otherwise a zero-filled page is made, with counter 2
  (base) or 1 (tail) written at word 0.
\<close>

definition Page_init :: "nat \<Rightarrow> string \<Rightarrow> bytes \<Rightarrow> error + Page" where
  "Page_init PAGESIZE range_type dat =
     (if length dat = PAGESIZE then
        (case unpack_from_Q dat of
           Inl e \<Rightarrow> Inl e
         | Inr n \<Rightarrow> Inr \<lparr>data = dat, num_records = n\<rparr>)
      else if range_type = ''base'' \<or> range_type = ''tail'' then
        (let n = (if range_type = ''base'' then 2 else 1) in
         case pack_Q n of
           Inl e \<Rightarrow> Inl e
         | Inr w \<Rightarrow> write_field \<lparr>data = replicate PAGESIZE 0, num_records = n\<rparr> 0 w)
      else Inl UnknownRangeType)"

section \<open>Sequencing of fallible, stateful code\<close>

text \<open>
  A call that may raise returns \<open>Inl\<close> of the error. A method that mutates its object
  returns the object with it, also when it raises: what was mutated before the exception
  stays mutated.
\<close>

definition bindE :: "error + 'a \<Rightarrow> ('a \<Rightarrow> error + 'b) \<Rightarrow> error + 'b" where
  "bindE m f = (case m of Inl e \<Rightarrow> Inl e | Inr x \<Rightarrow> f x)"

definition seqE :: "(error + 'a) \<times> 's \<Rightarrow> ('a \<Rightarrow> 's \<Rightarrow> (error + 'b) \<times> 's) \<Rightarrow> (error + 'b) \<times> 's" where
  "seqE m f = (case m of (Inl e, s) \<Rightarrow> (Inl e, s) | (Inr x, s) \<Rightarrow> f x s)"

text \<open>Python's \<^verbatim>\<open>xs[i]\<close> for a non-negative index.\<close>

definition py_nth :: "'a list \<Rightarrow> nat \<Rightarrow> error + 'a" where
  "py_nth xs i = (if i < length xs then Inr (xs ! i) else Inl IndexError)"

section \<open>DiskHelper (disk_helper.py)\<close>

text \<open>
  The files of one table: the file \<^verbatim>\<open>"{appendix}_{range_type[0]}_{column}"\<close> is the entry
  at (first character of the range type, column); a file that does not exist is \<open>None\<close>.
  The handles kept in \<^verbatim>\<open>opened_files\<close> only save reopening.
\<close>

record DiskHelper =
  files :: "(char \<times> nat) \<rightharpoonup> bytes"

definition open_file :: "DiskHelper \<Rightarrow> nat \<Rightarrow> string \<Rightarrow> error + ((char \<times> nat) \<times> nat)" where
  "open_file d column range_type =
     (case range_type of
        [] \<Rightarrow> Inl IndexError
      | c # _ \<Rightarrow>
          (case files d (c, column) of
             None \<Rightarrow> Inl FileNotFoundError
           | Some content \<Rightarrow> Inr ((c, column), length content)))"

definition file_content :: "DiskHelper \<Rightarrow> (char \<times> nat) \<Rightarrow> bytes" where
  "file_content d file = (case files d file of None \<Rightarrow> [] | Some content \<Rightarrow> content)"

definition read_page :: "nat \<Rightarrow> DiskHelper \<Rightarrow> string \<Rightarrow> nat \<Rightarrow> nat \<Rightarrow> (error + Page) \<times> DiskHelper" where
  "read_page PAGESIZE d range_type page_index column =
     (case open_file d column range_type of
        Inl e \<Rightarrow> (Inl e, d)
      | Inr (file, fsize) \<Rightarrow>
          if PAGESIZE = 0 then (Inl ZeroDivisionError, d)
          else
            (case (if page_index \<ge> fsize div PAGESIZE then
                     (case Page_init PAGESIZE range_type [] of
                        Inl e \<Rightarrow> Inl e
                      | Inr new_page \<Rightarrow>
                          Inr (d\<lparr>files := (files d)(file \<mapsto>
                                 file_content d file @ concat (replicate (page_index + 1) (data new_page)))\<rparr>))
                   else Inr d) of
               Inl e \<Rightarrow> (Inl e, d)
             | Inr d' \<Rightarrow>
                 (Page_init PAGESIZE [] (take PAGESIZE (drop (page_index * PAGESIZE) (file_content d' file))),
                  d')))"

definition write_page :: "nat \<Rightarrow> DiskHelper \<Rightarrow> string \<Rightarrow> nat \<Rightarrow> nat \<Rightarrow> Page \<Rightarrow> (error + unit) \<times> DiskHelper" where
  "write_page PAGESIZE d range_type page_index column to_write =
     (case open_file d column range_type of
        Inl e \<Rightarrow> (Inl e, d)
      | Inr (file, fsize) \<Rightarrow>
          if PAGESIZE = 0 then (Inl ZeroDivisionError, d)
          else if page_index \<ge> fsize div PAGESIZE then (Inl WritePageOutOfBound, d)
          else
            (let content = file_content d file; pos = page_index * PAGESIZE
             in (Inr (), d\<lparr>files := (files d)(file \<mapsto>
                   take pos content @ data to_write @ drop (pos + length (data to_write)) content)\<rparr>)))"

text \<open>The body of the loop of \<^verbatim>\<open>get_last_rids\<close>, for one range type.\<close>

definition get_last_rid :: "nat \<Rightarrow> DiskHelper \<Rightarrow> string \<Rightarrow> error + bytes" where
  "get_last_rid PAGESIZE d range_type =
     (case open_file d 0 range_type of
        Inl e \<Rightarrow> Inl e
      | Inr (file, fsize) \<Rightarrow>
          if PAGESIZE = 0 then Inl ZeroDivisionError
          else if fsize mod PAGESIZE \<noteq> 0 then Inl FileSizeNotMultiple
          else if fsize = 0 then pack_II 0 (if range_type = ''base'' then 8 else 0)
          else
            (let last_page_index = fsize div PAGESIZE - 1 in
             case unpack_Q (take WORDSIZE (drop (last_page_index * PAGESIZE) (file_content d file))) of
               Inl e \<Rightarrow> Inl e
             | Inr counter \<Rightarrow> pack_II last_page_index (counter * WORDSIZE)))"

definition get_last_rids :: "nat \<Rightarrow> DiskHelper \<Rightarrow> error + (bytes \<times> bytes)" where
  "get_last_rids PAGESIZE d =
     bindE (get_last_rid PAGESIZE d ''base'') (\<lambda>base_rid.
     bindE (get_last_rid PAGESIZE d ''tail'') (\<lambda>tail_rid.
     Inr (base_rid, tail_rid)))"

section \<open>Cache (cache.py)\<close>

text \<open>
  The page key \<^verbatim>\<open>"{range_type}-{page_index}-{column}"\<close> is kept as the triple it is
  generated from and parsed back into (the two agree for the range types \<^verbatim>\<open>'base'\<close> and
  \<^verbatim>\<open>'tail'\<close>, the only ones passed). The \<^verbatim>\<open>OrderedDict\<close> is an association list, oldest entry
  first; \<^verbatim>\<open>last_rid\<close> is a dictionary on range types. The three latches do nothing in a
  sequential run.
\<close>

type_synonym page_key = "string \<times> nat \<times> nat"

record Cache =
  cache_size :: nat
  cache :: "(page_key \<times> (bool \<times> Page)) list"
  last_rid :: "string \<rightharpoonup> bytes"
  disk_helper :: DiskHelper

definition Cache_init :: "nat \<Rightarrow> nat \<Rightarrow> DiskHelper \<Rightarrow> error + Cache" where
  "Cache_init PAGESIZE sz d =
     bindE (get_last_rids PAGESIZE d) (\<lambda>(last_base_rid, last_tail_rid).
     Inr \<lparr>cache_size = sz, cache = [],
          last_rid = [''base'' \<mapsto> last_base_rid, ''tail'' \<mapsto> last_tail_rid],
          disk_helper = d\<rparr>)"

definition get_new_rid :: "nat \<Rightarrow> Cache \<Rightarrow> string \<Rightarrow> (error + bytes) \<times> Cache" where
  "get_new_rid PAGESIZE c range_type =
     (case last_rid c range_type of
        None \<Rightarrow> (Inl KeyError, c)
      | Some last_r \<Rightarrow>
          (case unpack_II last_r of
             Inl e \<Rightarrow> (Inl e, c)
           | Inr (page_index, byte_offset) \<Rightarrow>
               let entry_offset = byte_offset div WORDSIZE + 1;
                   rolled = (entry_offset = PAGESIZE div WORDSIZE)
               in if rolled \<and> range_type \<noteq> ''base'' \<and> range_type \<noteq> ''tail''
                  then (Inl UnknownRangeType, c)
                  else
                    (let page_index' = (if rolled then page_index + 1 else page_index);
                         entry_offset' = (if rolled then (if range_type = ''base'' then 2 else 1)
                                          else entry_offset)
                     in case pack_II page_index' (entry_offset' * WORDSIZE) of
                          Inl e \<Rightarrow> (Inl e, c)
                        | Inr new_rid \<Rightarrow>
                            (Inr new_rid, c\<lparr>last_rid := (last_rid c)(range_type \<mapsto> new_rid)\<rparr>))))"

text \<open>
  \<^verbatim>\<open>__set_page\<close>: the entry goes to the young end as dirty; when the dictionary is over
  its size the oldest entry is popped, and written to its file if it is dirty.
\<close>

definition private_set_page :: "nat \<Rightarrow> Cache \<Rightarrow> page_key \<Rightarrow> Page \<Rightarrow> (error + unit) \<times> Cache" where
  "private_set_page PAGESIZE c key val =
     (let c1 = c\<lparr>cache := AList.delete key (cache c) @ [(key, (True, val))]\<rparr>
      in if length (cache c1) > cache_size c1 then
           (case cache c1 of
              [] \<Rightarrow> (Inl KeyError, c1)
            | (k, (is_dirty, page)) # rest \<Rightarrow>
                let c2 = c1\<lparr>cache := rest\<rparr> in
                if \<not> is_dirty then (Inr (), c2)
                else
                  (case k of (range_type, page_index, column) \<Rightarrow>
                     (case write_page PAGESIZE (disk_helper c2) range_type page_index column page of
                        (r, d') \<Rightarrow> (r, c2\<lparr>disk_helper := d'\<rparr>))))
         else (Inr (), c1))"

text \<open>
  \<^verbatim>\<open>__get_page\<close>: a page that is not cached is read from its file, entered through
  \<^verbatim>\<open>__set_page\<close> and then marked clean; a cached one moves to the young end.
\<close>

definition private_get_page :: "nat \<Rightarrow> Cache \<Rightarrow> page_key \<Rightarrow> (error + Page) \<times> Cache" where
  "private_get_page PAGESIZE c key =
     (case map_of (cache c) key of
        None \<Rightarrow>
          (case key of (range_type, page_index, column) \<Rightarrow>
             (case read_page PAGESIZE (disk_helper c) range_type page_index column of
                (Inl e, d') \<Rightarrow> (Inl e, c\<lparr>disk_helper := d'\<rparr>)
              | (Inr target_page, d') \<Rightarrow>
                  (case private_set_page PAGESIZE (c\<lparr>disk_helper := d'\<rparr>) key target_page of
                     (Inl e, c') \<Rightarrow> (Inl e, c')
                   | (Inr u, c') \<Rightarrow>
                       (Inr target_page,
                        c'\<lparr>cache := AList.update key (False, target_page) (cache c')\<rparr>))))
      | Some entry \<Rightarrow>
          (Inr (snd entry), c\<lparr>cache := AList.delete key (cache c) @ [(key, entry)]\<rparr>))"

definition get_page :: "nat \<Rightarrow> Cache \<Rightarrow> string \<Rightarrow> nat \<Rightarrow> nat \<Rightarrow> (error + Page) \<times> Cache" where
  "get_page PAGESIZE c range_type page_index column =
     private_get_page PAGESIZE c (range_type, page_index, column)"

definition set_page :: "nat \<Rightarrow> Cache \<Rightarrow> string \<Rightarrow> nat \<Rightarrow> nat \<Rightarrow> Page \<Rightarrow> (error + unit) \<times> Cache" where
  "set_page PAGESIZE c range_type page_index column new_page =
     private_set_page PAGESIZE c (range_type, page_index, column) new_page"

definition get_entry :: "nat \<Rightarrow> Cache \<Rightarrow> string \<Rightarrow> bytes \<Rightarrow> nat \<Rightarrow> (error + bytes) \<times> Cache" where
  "get_entry PAGESIZE c range_type rid query_column =
     (case unpack_II rid of
        Inl e \<Rightarrow> (Inl e, c)
      | Inr (page_index, page_offset) \<Rightarrow>
          seqE (get_page PAGESIZE c range_type page_index query_column) (\<lambda>target_page c'.
          (read_field PAGESIZE target_page (int page_offset), c')))"

text \<open>
  \<^verbatim>\<open>copy(page)\<close> is a shallow copy: the new \<^verbatim>\<open>Page\<close> object has its own \<^verbatim>\<open>num_records\<close> but
  the same \<^verbatim>\<open>bytearray\<close> as the page it was copied from. A write into the copy's buffer is
  therefore also a write into the buffer of the cached page, for as long as that page is
  in the cache; \<open>alias_write\<close> is that effect.
\<close>

definition alias_write :: "Cache \<Rightarrow> page_key \<Rightarrow> bytes \<Rightarrow> Cache" where
  "alias_write c key buf =
     c\<lparr>cache := AList.map_entry key (\<lambda>(is_dirty, page). (is_dirty, page\<lparr>data := buf\<rparr>)) (cache c)\<rparr>"

text \<open>\<^verbatim>\<open>pack_into('Q', buf, 0, n)\<close>: the first 8 bytes of the buffer are overwritten.\<close>

definition pack_into_Q :: "bytes \<Rightarrow> nat \<Rightarrow> error + bytes" where
  "pack_into_Q buf n =
     (if length buf < 8 then Inl StructError
      else bindE (pack_Q n) (\<lambda>w. Inr (w @ drop 8 buf)))"

definition set_entry ::
  "nat \<Rightarrow> Cache \<Rightarrow> string \<Rightarrow> bytes \<Rightarrow> nat \<Rightarrow> bytes option \<Rightarrow> bool \<Rightarrow> (error + unit) \<times> Cache" where
  "set_entry PAGESIZE c range_type rid query_column dat is_append =
     (case unpack_II rid of
        Inl e \<Rightarrow> (Inl e, c)
      | Inr (page_index, page_offset) \<Rightarrow>
          seqE (get_page PAGESIZE c range_type page_index query_column) (\<lambda>cached_page c1.
          let key = (range_type, page_index, query_column) in
          seqE (if is_append then
                  (case pack_into_Q (data cached_page) (num_records cached_page + 1) of
                     Inl e \<Rightarrow> (Inl e, c1)
                   | Inr buf \<Rightarrow>
                       (Inr \<lparr>data = buf, num_records = num_records cached_page + 1\<rparr>,
                        alias_write c1 key buf))
                else (Inr cached_page, c1)) (\<lambda>target_page c2.
          case dat of
            None \<Rightarrow> (Inr (), c2)
          | Some new_word \<Rightarrow>
              (case write_field target_page (int page_offset) new_word of
                 Inl e \<Rightarrow> (Inl e, c2)
               | Inr target_page' \<Rightarrow>
                   private_set_page PAGESIZE (alias_write c2 key (data target_page')) key target_page'))))"

definition last_page_index :: "Cache \<Rightarrow> string \<Rightarrow> error + nat" where
  "last_page_index c range_type =
     (if range_type \<noteq> ''base'' \<and> range_type \<noteq> ''tail'' then Inl UnknownRangeType
      else case last_rid c range_type of
             None \<Rightarrow> Inl KeyError
           | Some last_r \<Rightarrow> bindE (unpack_II last_r) (\<lambda>(page_index, byte_offset). Inr page_index))"

section \<open>Index (index.py)\<close>

text \<open>
  One dictionary per user column, from a column value to the list of base RIDs that carry
  it; a dictionary is an association list in insertion order. A Python value that may be
  \<^verbatim>\<open>None\<close> is an \<open>option\<close>. The back reference to the table is only used by
  \<^verbatim>\<open>create_index\<close>.
\<close>

type_synonym index_map = "(int option \<times> bytes list) list"

record Index =
  num_features :: nat
  index_created :: "bool list"
  map_list :: "index_map list"
  primary_key_index :: nat

text \<open>The standardized record of table.py.\<close>

record Record =
  rec_rid :: bytes
  rec_key :: int
  rec_columns :: "int option list"
  rec_range_type :: string

definition Index_init :: "nat \<Rightarrow> nat \<Rightarrow> error + Index" where
  "Index_init n pk =
     (if pk < n then
        Inr \<lparr>num_features = n, index_created = (replicate n False)[pk := True],
             map_list = replicate n [], primary_key_index = pk\<rparr>
      else Inl IndexError)"

text \<open>A \<^verbatim>\<open>for\<close> loop whose body may raise: the first exception ends it.\<close>

fun forE :: "'i list \<Rightarrow> ('i \<Rightarrow> 's \<Rightarrow> (error + unit) \<times> 's) \<Rightarrow> 's \<Rightarrow> (error + unit) \<times> 's" where
  "forE [] f s = (Inr (), s)"
| "forE (x # xs) f s = (case f x s of (Inl e, s') \<Rightarrow> (Inl e, s') | (Inr u, s') \<Rightarrow> forE xs f s')"

text \<open>The body of the loop of \<^verbatim>\<open>map_insert\<close>, for one column.\<close>

definition map_insert_step :: "bytes \<Rightarrow> int option list \<Rightarrow> nat \<Rightarrow> Index \<Rightarrow> (error + unit) \<times> Index" where
  "map_insert_step base_rid cols feature_index idx =
     (case py_nth (index_created idx) feature_index of
        Inl e \<Rightarrow> (Inl e, idx)
      | Inr created \<Rightarrow>
          if \<not> created then (Inr (), idx)
          else
            (case py_nth cols feature_index of
               Inl e \<Rightarrow> (Inl e, idx)
             | Inr new_key \<Rightarrow>
                 (case py_nth (map_list idx) feature_index of
                    Inl e \<Rightarrow> (Inl e, idx)
                  | Inr m \<Rightarrow>
                      if feature_index = primary_key_index idx then
                        (if map_of m new_key \<noteq> None then (Inl DuplicateKey, idx)
                         else (Inr (), idx\<lparr>map_list := (map_list idx)
                                 [feature_index := AList.update new_key [base_rid] m]\<rparr>))
                      else
                        (case map_of m new_key of
                           Some rids \<Rightarrow>
                             (Inr (), idx\<lparr>map_list := (map_list idx)
                                [feature_index := AList.update new_key (rids @ [base_rid]) m]\<rparr>)
                         | None \<Rightarrow>
                             (Inr (), idx\<lparr>map_list := (map_list idx)
                                [feature_index := AList.update new_key [base_rid] m]\<rparr>)))))"

definition map_insert :: "Index \<Rightarrow> Record \<Rightarrow> (error + unit) \<times> Index" where
  "map_insert idx new_record =
     (if length (rec_columns new_record) \<noteq> num_features idx then (Inl IncompatibleColumns, idx)
      else forE [0 ..< length (rec_columns new_record)]
             (map_insert_step (rec_rid new_record) (rec_columns new_record)) idx)"

text \<open>\<^verbatim>\<open>list.remove(x)\<close>: the first occurrence goes; it raises when there is none.\<close>

definition list_remove :: "'a list \<Rightarrow> 'a \<Rightarrow> error + 'a list" where
  "list_remove xs x = (if x \<in> set xs then Inr (remove1 x xs) else Inl ListRemoveError)"

text \<open>
  The body of the loop of \<^verbatim>\<open>map_change\<close>. (A wrong number of columns is only printed
  there, not raised.)
\<close>

definition map_change_step ::
  "bytes \<Rightarrow> int option list \<Rightarrow> int option list \<Rightarrow> nat \<Rightarrow> Index \<Rightarrow> (error + unit) \<times> Index" where
  "map_change_step base_rid old_feature new_feature feature_index idx =
     (case py_nth (index_created idx) feature_index of
        Inl e \<Rightarrow> (Inl e, idx)
      | Inr created \<Rightarrow>
          if \<not> created then (Inr (), idx)
          else
            (case py_nth old_feature feature_index of
               Inl e \<Rightarrow> (Inl e, idx)
             | Inr old_key \<Rightarrow>
            (case py_nth new_feature feature_index of
               Inl e \<Rightarrow> (Inl e, idx)
             | Inr new_key \<Rightarrow>
            (case py_nth (map_list idx) feature_index of
               Inl e \<Rightarrow> (Inl e, idx)
             | Inr m \<Rightarrow>
                 (case map_of m old_key of
                    None \<Rightarrow> (Inl OldKeyMissing, idx)
                  | Some old_rids \<Rightarrow>
                      if new_key = None \<or> new_key = old_key then (Inr (), idx)
                      else if feature_index = primary_key_index idx then
                        (if map_of m new_key \<noteq> None then (Inl DuplicateKey, idx)
                         else (Inr (), idx\<lparr>map_list := (map_list idx)
                                 [feature_index :=
                                    AList.update new_key [base_rid] (AList.delete old_key m)]\<rparr>))
                      else
                        (case list_remove old_rids base_rid of
                           Inl e \<Rightarrow> (Inl e, idx)
                         | Inr rest \<Rightarrow>
                             let m1 = AList.update old_key rest m in
                             (case map_of m1 new_key of
                                Some rids \<Rightarrow>
                                  (Inr (), idx\<lparr>map_list := (map_list idx)
                                     [feature_index := AList.update new_key (rids @ [base_rid]) m1]\<rparr>)
                              | None \<Rightarrow>
                                  (Inr (), idx\<lparr>map_list := (map_list idx)
                                     [feature_index := AList.update new_key [base_rid] m1]\<rparr>))))))))"

definition map_change :: "Index \<Rightarrow> bytes \<Rightarrow> int option list \<Rightarrow> int option list \<Rightarrow> (error + unit) \<times> Index" where
  "map_change idx base_rid old_feature new_feature =
     forE [0 ..< num_features idx] (map_change_step base_rid old_feature new_feature) idx"

definition map_delete :: "Index \<Rightarrow> int \<Rightarrow> (error + unit) \<times> Index" where
  "map_delete idx old_key =
     (case py_nth (map_list idx) (primary_key_index idx) of
        Inl e \<Rightarrow> (Inl e, idx)
      | Inr m \<Rightarrow>
          if map_of m (Some old_key) = None then (Inl KeyError, idx)
          else (Inr (), idx\<lparr>map_list := (map_list idx)
                  [primary_key_index idx := AList.delete (Some old_key) m]\<rparr>))"

definition locate :: "Index \<Rightarrow> int \<Rightarrow> nat \<Rightarrow> error + bytes list option" where
  "locate idx k feature_index =
     bindE (py_nth (index_created idx) feature_index) (\<lambda>created.
     if \<not> created then Inl NotIndexed
     else bindE (py_nth (map_list idx) feature_index) (\<lambda>m.
       case map_of m (Some k) of
         None \<Rightarrow> Inr None
       | Some ans \<Rightarrow> if length ans = 0 then Inr None else Inr (Some ans)))"

section \<open>Table (table.py)\<close>

definition RID_COLUMN :: nat where "RID_COLUMN = 0"
definition INDIRECTION_COLUMN :: nat where "INDIRECTION_COLUMN = 1"
definition SCHEMA_ENCODING_COLUMN :: nat where "SCHEMA_ENCODING_COLUMN = 2"
definition TIMESTAMP_COLUMN :: nat where "TIMESTAMP_COLUMN = 3"
definition NUM_INTERNAL_COLUMN :: nat where "NUM_INTERNAL_COLUMN = 4"

definition INVALID_RID :: bytes where
  "INVALID_RID = le_bytes 8 (2 ^ 64 - 1)"

text \<open>
  The state of a table. \<^verbatim>\<open>merge_counter\<close> is a deque of ones: its length. The merge
  thread is not part of the state; one pass of its loop is the function \<open>merge_pass\<close>
  below, and \<^verbatim>\<open>merge_trigger\<close> is the flag of the event that wakes it. The lock manager
  plays no part in the functions modelled here.
\<close>

record Table =
  key_index :: nat
  num_columns :: nat
  index :: Index
  tcache :: Cache
  merge_queue_matrix :: "(bytes \<times> bytes) list list list"
  merge_counter :: nat
  closed :: bool
  merge_trigger :: bool

definition Table_init :: "nat \<Rightarrow> nat \<Rightarrow> DiskHelper \<Rightarrow> nat \<Rightarrow> nat \<Rightarrow> error + Table" where
  "Table_init PAGESIZE CACHE_SIZE d n k =
     bindE (Index_init n k) (\<lambda>idx.
     bindE (Cache_init PAGESIZE CACHE_SIZE d) (\<lambda>c.
     bindE (last_page_index c ''base'') (\<lambda>last_base.
     Inr \<lparr>key_index = k, num_columns = n, index = idx, tcache = c,
          merge_queue_matrix = replicate n (replicate (last_base + 1) []),
          merge_counter = 0, closed = False, merge_trigger = False\<rparr>)))"

text \<open>Running a cache operation on the cache of the table.\<close>

definition on_cache :: "Table \<Rightarrow> (error + 'a) \<times> Cache \<Rightarrow> (error + 'a) \<times> Table" where
  "on_cache t m = (case m of (r, c) \<Rightarrow> (r, t\<lparr>tcache := c\<rparr>))"

definition append_queue :: "nat \<Rightarrow> Table \<Rightarrow> (error + unit) \<times> Table" where
  "append_queue i t =
     (case py_nth (merge_queue_matrix t) i of
        Inl e \<Rightarrow> (Inl e, t)
      | Inr qs \<Rightarrow> (Inr (), t\<lparr>merge_queue_matrix := (merge_queue_matrix t)[i := qs @ [[]]]\<rparr>))"

definition Table_get_new_rid :: "nat \<Rightarrow> Table \<Rightarrow> string \<Rightarrow> (error + bytes) \<times> Table" where
  "Table_get_new_rid PAGESIZE t rt =
     seqE (on_cache t (get_new_rid PAGESIZE (tcache t) rt)) (\<lambda>new_rid t1.
     if rt = ''base'' then
       (case unpack_II new_rid of
          Inl e \<Rightarrow> (Inl e, t1)
        | Inr (page_index, byte_offset) \<Rightarrow>
            if byte_offset = 2 * WORDSIZE then
              seqE (forE [0 ..< num_columns t1] append_queue t1) (\<lambda>u t2. (Inr new_rid, t2))
            else (Inr new_rid, t1))
     else (Inr new_rid, t1))"

text \<open>
  \<^verbatim>\<open>insert_record\<close>; \<open>now\<close> is the value of \<^verbatim>\<open>int(time() * 1000000)\<close>. An argument is
  packed before the call it is passed to.
\<close>

definition insert_column :: "nat \<Rightarrow> string \<Rightarrow> bytes \<Rightarrow> (nat \<times> int option) \<Rightarrow> Cache \<Rightarrow> (error + unit) \<times> Cache" where
  "insert_column PAGESIZE rt r iv c =
     (case iv of (i, v) \<Rightarrow>
        (case v of
           None \<Rightarrow> set_entry PAGESIZE c rt r (i + NUM_INTERNAL_COLUMN) None True
         | Some x \<Rightarrow>
             (case pack_q x of
                Inl e \<Rightarrow> (Inl e, c)
              | Inr w \<Rightarrow> set_entry PAGESIZE c rt r (i + NUM_INTERNAL_COLUMN) (Some w) True)))"

definition insert_record :: "nat \<Rightarrow> Table \<Rightarrow> Record \<Rightarrow> nat \<Rightarrow> (error + unit) \<times> Table" where
  "insert_record PAGESIZE t new_record now =
     (let rt = rec_range_type new_record; r = rec_rid new_record in
      on_cache t
       (seqE (set_entry PAGESIZE (tcache t) rt r RID_COLUMN (Some r) True) (\<lambda>u c1.
        seqE (set_entry PAGESIZE c1 rt r INDIRECTION_COLUMN (Some INVALID_RID) True) (\<lambda>u c2.
        seqE (set_entry PAGESIZE c2 rt r SCHEMA_ENCODING_COLUMN None True) (\<lambda>u c3.
        seqE (case pack_Q now of
                Inl e \<Rightarrow> (Inl e, c3)
              | Inr w \<Rightarrow> set_entry PAGESIZE c3 rt r TIMESTAMP_COLUMN (Some w) True) (\<lambda>u c4.
        forE (enumerate 0 (rec_columns new_record)) (insert_column PAGESIZE rt r) c4))))))"

definition update_schema :: "nat \<Rightarrow> Cache \<Rightarrow> string \<Rightarrow> nat \<Rightarrow> bytes \<Rightarrow> (error + unit) \<times> Cache" where
  "update_schema PAGESIZE c rt feature_index r =
     seqE (get_entry PAGESIZE c rt r SCHEMA_ENCODING_COLUMN) (\<lambda>schema c1.
     case unpack_Q schema of
       Inl e \<Rightarrow> (Inl e, c1)
     | Inr n \<Rightarrow>
         (case pack_Q (n OR push_bit feature_index 1) of
            Inl e \<Rightarrow> (Inl e, c1)
          | Inr w \<Rightarrow> set_entry PAGESIZE c1 rt r SCHEMA_ENCODING_COLUMN (Some w) False))"

definition is_updated :: "bytes \<Rightarrow> nat \<Rightarrow> error + nat" where
  "is_updated encoding feature_index =
     bindE (unpack_Q encoding) (\<lambda>n. Inr (n AND push_bit feature_index 1))"

text \<open>The body of the loop of \<^verbatim>\<open>update_record\<close> over the columns of the tail record.\<close>

definition update_column ::
  "nat \<Rightarrow> bytes \<Rightarrow> bytes \<Rightarrow> (nat \<times> int option) \<Rightarrow> Table \<Rightarrow> (error + unit) \<times> Table" where
  "update_column PAGESIZE base_rid new_tail_rid iv t =
     (case iv of (i, v) \<Rightarrow>
        (case v of
           None \<Rightarrow>
             on_cache t (set_entry PAGESIZE (tcache t) ''tail'' new_tail_rid (i + NUM_INTERNAL_COLUMN) None False)
         | Some x \<Rightarrow>
             (case pack_q x of
                Inl e \<Rightarrow> (Inl e, t)
              | Inr w \<Rightarrow>
                  seqE (on_cache t (update_schema PAGESIZE (tcache t) ''base'' i base_rid)) (\<lambda>u t1.
                  seqE (on_cache t1 (update_schema PAGESIZE (tcache t1) ''tail'' i new_tail_rid)) (\<lambda>u t2.
                  case unpack_II base_rid of
                    Inl e \<Rightarrow> (Inl e, t2)
                  | Inr (base_page_index, off) \<Rightarrow>
                      (case py_nth (merge_queue_matrix t2) i of
                         Inl e \<Rightarrow> (Inl e, t2)
                       | Inr qs \<Rightarrow>
                           (case py_nth qs base_page_index of
                              Inl e \<Rightarrow> (Inl e, t2)
                            | Inr q \<Rightarrow>
                                let t3 = t2\<lparr>merge_queue_matrix := (merge_queue_matrix t2)
                                           [i := qs[base_page_index := q @ [(base_rid, new_tail_rid)]]]\<rparr>
                                in on_cache t3 (set_entry PAGESIZE (tcache t3) ''tail'' new_tail_rid
                                                  (i + NUM_INTERNAL_COLUMN) (Some w) False))))))))"

definition update_record :: "nat \<Rightarrow> nat \<Rightarrow> Table \<Rightarrow> bytes \<Rightarrow> Record \<Rightarrow> (error + unit) \<times> Table" where
  "update_record PAGESIZE MERGE_EPOCH t base_rid new_tail_record =
     (let new_tail_rid = rec_rid new_tail_record in
      case unpack_II new_tail_rid of
        Inl e \<Rightarrow> (Inl e, t)
      | Inr (page_index, byte_offset) \<Rightarrow>
          let t0 = (if byte_offset = WORDSIZE then
                      t\<lparr>merge_counter := merge_counter t + 1,
                        merge_trigger := (merge_trigger t \<or> merge_counter t + 1 > MERGE_EPOCH)\<rparr>
                    else t)
          in
          seqE (on_cache t0 (get_entry PAGESIZE (tcache t0) ''base'' base_rid INDIRECTION_COLUMN))
            (\<lambda>base_indirection t1.
          seqE (if base_indirection = INVALID_RID then
                  on_cache t1 (set_entry PAGESIZE (tcache t1) ''base'' base_rid INDIRECTION_COLUMN
                                 (Some new_tail_rid) False)
                else
                  seqE (on_cache t1 (set_entry PAGESIZE (tcache t1) ''tail'' new_tail_rid
                                       INDIRECTION_COLUMN (Some base_indirection) False)) (\<lambda>u t2.
                  on_cache t2 (set_entry PAGESIZE (tcache t2) ''base'' base_rid INDIRECTION_COLUMN
                                 (Some new_tail_rid) False)))
            (\<lambda>u t3.
          forE (enumerate 0 (rec_columns new_tail_record))
               (update_column PAGESIZE base_rid new_tail_rid) t3)))"

text \<open>
  \<^verbatim>\<open>base_up_to_date\<close>: the lineage of the base page of the column (its word 1) against
  the indirection of the base record, as pairs (page index, byte offset).
\<close>

definition base_up_to_date :: "nat \<Rightarrow> Cache \<Rightarrow> bytes \<Rightarrow> nat \<Rightarrow> (error + bool) \<times> Cache" where
  "base_up_to_date PAGESIZE c base_rid feature_index =
     (case unpack_II base_rid of
        Inl e \<Rightarrow> (Inl e, c)
      | Inr (page_index, off) \<Rightarrow>
          seqE (get_page PAGESIZE c ''base'' page_index (feature_index + NUM_INTERNAL_COLUMN))
            (\<lambda>cur_page c1.
          case read_field PAGESIZE cur_page (int WORDSIZE) of
            Inl e \<Rightarrow> (Inl e, c1)
          | Inr lineage \<Rightarrow>
              seqE (get_entry PAGESIZE c1 ''base'' base_rid INDIRECTION_COLUMN) (\<lambda>latest_tail_rid c2.
              case unpack_II lineage of
                Inl e \<Rightarrow> (Inl e, c2)
              | Inr (lp, lo) \<Rightarrow>
                  (case unpack_II latest_tail_rid of
                     Inl e \<Rightarrow> (Inl e, c2)
                   | Inr (tp, to) \<Rightarrow>
                       if lp > tp then (Inr True, c2)
                       else if lp = tp then (Inr (lo > to), c2)
                       else (Inr False, c2)))))"

text \<open>
  The \<^verbatim>\<open>while\<close> loop of \<^verbatim>\<open>select_feature\<close>: it follows the indirection of the tail records
  until one has the bit of the column set. Nothing bounds it in the code, so the function
  is partial: \<open>None\<close> is a loop that never ends.
\<close>

partial_function (option) walk_chain ::
  "nat \<Rightarrow> Cache \<Rightarrow> nat \<Rightarrow> bytes \<Rightarrow> bytes \<Rightarrow> ((error + bytes) \<times> Cache) option" where
  "walk_chain PAGESIZE c feature_index tail_rid encoding =
     (case is_updated encoding feature_index of
        Inl e \<Rightarrow> Some (Inl e, c)
      | Inr u \<Rightarrow>
          if u \<noteq> 0 then Some (Inr tail_rid, c)
          else
            (case get_entry PAGESIZE c ''tail'' tail_rid INDIRECTION_COLUMN of
               (Inl e, c1) \<Rightarrow> Some (Inl e, c1)
             | (Inr tail_rid', c1) \<Rightarrow>
                 (case get_entry PAGESIZE c1 ''tail'' tail_rid' SCHEMA_ENCODING_COLUMN of
                    (Inl e, c2) \<Rightarrow> Some (Inl e, c2)
                  | (Inr encoding', c2) \<Rightarrow>
                      walk_chain PAGESIZE c2 feature_index tail_rid' encoding')))"

declare walk_chain.simps [code]

text \<open>Sequencing of code that may also loop for ever.\<close>

definition bindO ::
  "((error + 'a) \<times> 's) option \<Rightarrow> ('a \<Rightarrow> 's \<Rightarrow> ((error + 'b) \<times> 's) option) \<Rightarrow> ((error + 'b) \<times> 's) option" where
  "bindO m f = (case m of None \<Rightarrow> None | Some (Inl e, s) \<Rightarrow> Some (Inl e, s) | Some (Inr x, s) \<Rightarrow> f x s)"

definition Cache_select_feature :: "nat \<Rightarrow> Cache \<Rightarrow> bytes \<Rightarrow> nat \<Rightarrow> ((error + int) \<times> Cache) option" where
  "Cache_select_feature PAGESIZE c base_rid feature_index =
     bindO (Some (get_entry PAGESIZE c ''base'' base_rid SCHEMA_ENCODING_COLUMN)) (\<lambda>encoding c1.
     bindO (Some (base_up_to_date PAGESIZE c1 base_rid feature_index)) (\<lambda>up c2.
     bindO (Some (if up then (Inr True, c2)
                  else (bindE (is_updated encoding feature_index) (\<lambda>u. Inr (u = 0)), c2))) (\<lambda>from_base c3.
     if from_base then
       bindO (Some (get_entry PAGESIZE c3 ''base'' base_rid (feature_index + NUM_INTERNAL_COLUMN)))
         (\<lambda>data_entry c4. Some (unpack_q data_entry, c4))
     else
       bindO (Some (get_entry PAGESIZE c3 ''base'' base_rid INDIRECTION_COLUMN)) (\<lambda>tail_rid c4.
       bindO (Some (get_entry PAGESIZE c4 ''tail'' tail_rid SCHEMA_ENCODING_COLUMN)) (\<lambda>encoding' c5.
       bindO (walk_chain PAGESIZE c5 feature_index tail_rid encoding') (\<lambda>tail_rid' c6.
       bindO (Some (get_entry PAGESIZE c6 ''tail'' tail_rid' (feature_index + NUM_INTERNAL_COLUMN)))
         (\<lambda>data_entry c7. Some (unpack_q data_entry, c7))))))))"

definition on_cacheO :: "Table \<Rightarrow> ((error + 'a) \<times> Cache) option \<Rightarrow> ((error + 'a) \<times> Table) option" where
  "on_cacheO t m = map_option (on_cache t) m"

definition select_feature :: "nat \<Rightarrow> Table \<Rightarrow> bytes \<Rightarrow> nat \<Rightarrow> ((error + int) \<times> Table) option" where
  "select_feature PAGESIZE t base_rid feature_index =
     on_cacheO t (Cache_select_feature PAGESIZE (tcache t) base_rid feature_index)"

text \<open>The \<^verbatim>\<open>while\<close> loop of \<^verbatim>\<open>Table.delete\<close>, also unbounded in the code.\<close>

partial_function (option) delete_chain ::
  "nat \<Rightarrow> Cache \<Rightarrow> bytes \<Rightarrow> ((error + unit) \<times> Cache) option" where
  "delete_chain PAGESIZE c latest_update =
     (if latest_update = INVALID_RID then Some (Inr (), c)
      else
        (case set_entry PAGESIZE c ''tail'' latest_update RID_COLUMN (Some INVALID_RID) False of
           (Inl e, c1) \<Rightarrow> Some (Inl e, c1)
         | (Inr u, c1) \<Rightarrow>
             (case get_entry PAGESIZE c1 ''tail'' latest_update INDIRECTION_COLUMN of
                (Inl e, c2) \<Rightarrow> Some (Inl e, c2)
              | (Inr latest_update', c2) \<Rightarrow> delete_chain PAGESIZE c2 latest_update')))"

declare delete_chain.simps [code]

definition Table_delete :: "nat \<Rightarrow> Table \<Rightarrow> bytes \<Rightarrow> ((error + unit) \<times> Table) option" where
  "Table_delete PAGESIZE t r =
     on_cacheO t
      (bindO (Some (get_entry PAGESIZE (tcache t) ''base'' r INDIRECTION_COLUMN)) (\<lambda>latest_update c1.
       bindO (Some (set_entry PAGESIZE c1 ''base'' r RID_COLUMN (Some INVALID_RID) False)) (\<lambda>u c2.
       delete_chain PAGESIZE c2 latest_update)))"

text \<open>
  One queue of the merge, for column \<open>feature_index\<close> and base page \<open>page_index\<close>. The
  page worked on is a shallow copy of the cached page, so each \<^verbatim>\<open>write_field\<close> also
  reaches the cached page while it is cached. \<^verbatim>\<open>seen_update\<close> is a dictionary: a later
  pair replaces the tail RID of an earlier one with the same base RID.
\<close>

definition merge_entry ::
  "nat \<Rightarrow> page_key \<Rightarrow> nat \<Rightarrow> (bytes \<times> bytes) \<Rightarrow> (Page \<times> Cache) \<Rightarrow> (error + unit) \<times> (Page \<times> Cache)" where
  "merge_entry PAGESIZE k feature_index bt pc =
     (case bt of (base_rid, tail_rid) \<Rightarrow>
      case pc of (new_base_page, c) \<Rightarrow>
        (case get_entry PAGESIZE c ''tail'' tail_rid (feature_index + NUM_INTERNAL_COLUMN) of
           (Inl e, c1) \<Rightarrow> (Inl e, (new_base_page, c1))
         | (Inr data_entry, c1) \<Rightarrow>
             (case unpack_II base_rid of
                Inl e \<Rightarrow> (Inl e, (new_base_page, c1))
              | Inr (pi, page_offset) \<Rightarrow>
                  (case write_field new_base_page (int page_offset) data_entry of
                     Inl e \<Rightarrow> (Inl e, (new_base_page, c1))
                   | Inr page' \<Rightarrow> (Inr (), (page', alias_write c1 k (data page')))))))"

definition merge_queue :: "nat \<Rightarrow> (nat \<times> nat) \<Rightarrow> Table \<Rightarrow> (error + unit) \<times> Table" where
  "merge_queue PAGESIZE fp t =
     (case fp of (feature_index, page_index) \<Rightarrow>
      case py_nth (merge_queue_matrix t) feature_index of
        Inl e \<Rightarrow> (Inl e, t)
      | Inr qs \<Rightarrow>
      (case py_nth qs page_index of
        Inl e \<Rightarrow> (Inl e, t)
      | Inr q \<Rightarrow>
          if length q = 0 then (Inr (), t)
          else
            (let column_index = NUM_INTERNAL_COLUMN + feature_index;
                 k = (''base'', page_index, column_index)
             in
             seqE (on_cache t (get_page PAGESIZE (tcache t) ''base'' page_index column_index))
               (\<lambda>new_base_page t1.
             case read_field PAGESIZE new_base_page (int WORDSIZE) of
               Inl e \<Rightarrow> (Inl e, t1)
             | Inr lineage0 \<Rightarrow>
                 let seen_update = foldl (\<lambda>m (base_rid, tail_rid). AList.update base_rid tail_rid m) [] q;
                     lineage = foldl (\<lambda>l (base_rid, tail_rid). tail_rid) lineage0 q;
                     t2 = t1\<lparr>merge_queue_matrix := (merge_queue_matrix t1)
                                [feature_index := qs[page_index := []]]\<rparr>
                 in
                 (case write_field new_base_page (int WORDSIZE) lineage of
                    Inl e \<Rightarrow> (Inl e, t2)
                  | Inr page1 \<Rightarrow>
                      (case forE seen_update (merge_entry PAGESIZE k feature_index)
                              (page1, alias_write (tcache t2) k (data page1)) of
                         (Inl e, (page2, c2)) \<Rightarrow> (Inl e, t2\<lparr>tcache := c2\<rparr>)
                       | (Inr u, (page2, c2)) \<Rightarrow>
                           on_cache t2 (set_page PAGESIZE c2 ''base'' page_index column_index page2)))))))"

text \<open>
  One pass of the loop of \<^verbatim>\<open>merge\<close>, from the return of \<^verbatim>\<open>merge_trigger.wait()\<close> on: the
  base pages below the last one (all of them when the table is closed), for every column;
  then, unless the table is closed, \<^verbatim>\<open>MERGE_EPOCH\<close> entries leave the counter and the
  trigger is cleared.
\<close>

definition merge_pass :: "nat \<Rightarrow> nat \<Rightarrow> Table \<Rightarrow> (error + unit) \<times> Table" where
  "merge_pass PAGESIZE MERGE_EPOCH t =
     (case last_page_index (tcache t) ''base'' of
        Inl e \<Rightarrow> (Inl e, t)
      | Inr last_base \<Rightarrow>
          let merge_range = (if closed t then last_base + 1 else last_base) in
          seqE (forE (List.product [0 ..< num_columns t] [0 ..< merge_range]) (merge_queue PAGESIZE) t)
            (\<lambda>u t1.
          if closed t1 then (Inr (), t1)
          else if merge_counter t1 < MERGE_EPOCH then (Inl IndexError, t1\<lparr>merge_counter := 0\<rparr>)
          else (Inr (), t1\<lparr>merge_counter := merge_counter t1 - MERGE_EPOCH, merge_trigger := False\<rparr>)))"

section \<open>Query (query.py)\<close>

definition on_index :: "Table \<Rightarrow> (error + 'a) \<times> Index \<Rightarrow> (error + 'a) \<times> Table" where
  "on_index t m = (case m of (r, i) \<Rightarrow> (r, t\<lparr>index := i\<rparr>))"

definition Query_delete :: "nat \<Rightarrow> Table \<Rightarrow> int \<Rightarrow> ((error + unit) \<times> Table) option" where
  "Query_delete PAGESIZE t k =
     (case locate (index t) k 0 of
        Inl e \<Rightarrow> Some (Inl e, t)
      | Inr None \<Rightarrow> Some (Inl TypeError, t)
      | Inr (Some rids) \<Rightarrow>
          (case py_nth rids 0 of
             Inl e \<Rightarrow> Some (Inl e, t)
           | Inr r \<Rightarrow>
               bindO (Table_delete PAGESIZE t r) (\<lambda>u t1.
               Some (on_index t1 (map_delete (index t1) k)))))"

definition Query_insert :: "nat \<Rightarrow> Table \<Rightarrow> int list \<Rightarrow> nat \<Rightarrow> (error + unit) \<times> Table" where
  "Query_insert PAGESIZE t cols now =
     (if length cols \<noteq> num_columns t then (Inr (), t)
      else
        seqE (Table_get_new_rid PAGESIZE t ''base'') (\<lambda>base_rid t1.
        case py_nth cols (key_index t1) of
          Inl e \<Rightarrow> (Inl e, t1)
        | Inr k \<Rightarrow>
            let new_record = \<lparr>rec_rid = base_rid, rec_key = k, rec_columns = map Some cols,
                              rec_range_type = ''base''\<rparr>
            in seqE (on_index t1 (map_insert (index t1) new_record)) (\<lambda>u t2.
               insert_record PAGESIZE t2 new_record now)))"

text \<open>The inner loop of \<^verbatim>\<open>select\<close>: the columns of one record.\<close>

fun select_columns ::
  "nat \<Rightarrow> Table \<Rightarrow> bytes \<Rightarrow> int list \<Rightarrow> nat list \<Rightarrow> ((error + int option list) \<times> Table) option" where
  "select_columns PAGESIZE t base_rid query_columns [] = Some (Inr [], t)"
| "select_columns PAGESIZE t base_rid query_columns (i # rest) =
     (case py_nth query_columns i of
        Inl e \<Rightarrow> Some (Inl e, t)
      | Inr q \<Rightarrow>
          if q = 0 then
            bindO (select_columns PAGESIZE t base_rid query_columns rest) (\<lambda>fs t1.
            Some (Inr (None # fs), t1))
          else
            bindO (select_feature PAGESIZE t base_rid i) (\<lambda>field t1.
            bindO (select_columns PAGESIZE t1 base_rid query_columns rest) (\<lambda>fs t2.
            Some (Inr (Some field # fs), t2))))"

text \<open>The outer loop of \<^verbatim>\<open>select\<close>: one record per base RID.\<close>

fun select_records ::
  "nat \<Rightarrow> Table \<Rightarrow> int \<Rightarrow> int list \<Rightarrow> bytes list \<Rightarrow> ((error + Record list) \<times> Table) option" where
  "select_records PAGESIZE t k query_columns [] = Some (Inr [], t)"
| "select_records PAGESIZE t k query_columns (base_rid # rest) =
     bindO (select_columns PAGESIZE t base_rid query_columns [0 ..< num_columns t]) (\<lambda>query_result t1.
     bindO (select_records PAGESIZE t1 k query_columns rest) (\<lambda>rs t2.
     Some (Inr (\<lparr>rec_rid = base_rid, rec_key = k, rec_columns = query_result,
                  rec_range_type = ''base''\<rparr> # rs), t2)))"

text \<open>
  \<^verbatim>\<open>select\<close>. When \<^verbatim>\<open>locate\<close> returns \<^verbatim>\<open>None\<close> the \<^verbatim>\<open>for\<close> loop over it raises
  \<^verbatim>\<open>TypeError\<close>.
\<close>

definition Query_select ::
  "nat \<Rightarrow> Table \<Rightarrow> int \<Rightarrow> nat \<Rightarrow> int list \<Rightarrow> ((error + Record list) \<times> Table) option" where
  "Query_select PAGESIZE t k key_col query_columns =
     (if length query_columns \<noteq> num_columns t then Some (Inr [], t)
      else
        (case locate (index t) k key_col of
           Inl e \<Rightarrow> Some (Inl e, t)
         | Inr None \<Rightarrow> Some (Inl TypeError, t)
         | Inr (Some base_rids_list) \<Rightarrow> select_records PAGESIZE t k query_columns base_rids_list))"

definition Query_update ::
  "nat \<Rightarrow> nat \<Rightarrow> Table \<Rightarrow> int \<Rightarrow> int option list \<Rightarrow> nat \<Rightarrow> ((error + bool) \<times> Table) option" where
  "Query_update PAGESIZE MERGE_EPOCH t k cols now =
     (if length cols \<noteq> num_columns t then Some (Inr False, t)
      else
        bindO (Some (Table_get_new_rid PAGESIZE t ''tail'')) (\<lambda>new_tail_rid t1.
        let new_record = \<lparr>rec_rid = new_tail_rid, rec_key = k, rec_columns = cols,
                          rec_range_type = ''tail''\<rparr> in
        bindO (Some (insert_record PAGESIZE t1 new_record now)) (\<lambda>u t2.
        case locate (index t2) k 0 of
          Inl e \<Rightarrow> Some (Inl e, t2)
        | Inr None \<Rightarrow> Some (Inl TypeError, t2)
        | Inr (Some rids) \<Rightarrow>
            (case py_nth rids 0 of
               Inl e \<Rightarrow> Some (Inl e, t2)
             | Inr base_rid \<Rightarrow>
                 bindO (Query_select PAGESIZE t2 k 0 (replicate (num_columns t2) 1)) (\<lambda>rs t3.
                 case py_nth rs 0 of
                   Inl e \<Rightarrow> Some (Inl e, t3)
                 | Inr old_record \<Rightarrow>
                     bindO (Some (on_index t3 (map_change (index t3) base_rid
                                                 (rec_columns old_record) cols))) (\<lambda>u t4.
                     bindO (Some (update_record PAGESIZE MERGE_EPOCH t4 base_rid new_record)) (\<lambda>u t5.
                     Some (Inr True, t5))))))))"



text \<open>\<^verbatim>\<open>range(start, end + step, step)\<close> for a step of 1 or -1.\<close>

definition py_range :: "int \<Rightarrow> int \<Rightarrow> int \<Rightarrow> int list" where
  "py_range start end_range step =
     (if step > 0 then [start .. end_range] else rev [end_range .. start])"


definition Query_increment ::
  "nat \<Rightarrow> nat \<Rightarrow> Table \<Rightarrow> int \<Rightarrow> nat \<Rightarrow> nat \<Rightarrow> ((error + bool) \<times> Table) option" where
  "Query_increment PAGESIZE MERGE_EPOCH t k col now =
     bindO (Query_select PAGESIZE t k (key_index t) (replicate (num_columns t) 1)) (\<lambda>rs t1.
     case py_nth rs 0 of
       Inl e \<Rightarrow> Some (Inl e, t1)
     | Inr r \<Rightarrow>
         if col \<ge> num_columns t1 then Some (Inl IndexError, t1)
         else
           (case py_nth (rec_columns r) col of
              Inl e \<Rightarrow> Some (Inl e, t1)
            | Inr None \<Rightarrow> Some (Inl TypeError, t1)
            | Inr (Some v) \<Rightarrow>
                Query_update PAGESIZE MERGE_EPOCH t1 k
                  ((replicate (num_columns t1) None)[col := Some (v + 1)]) now))"

section \<open>Transaction (transaction.py)\<close>

text \<open>
  An enqueued query is the bound method with its arguments. The lock kinds are the strings
  \<^verbatim>\<open>'r'\<close> and \<^verbatim>\<open>'w'\<close>; \<^verbatim>\<open>keys_to_be_locked\<close> is a dictionary.
\<close>

datatype query =
    Insert "int list"
  | Increment int nat
  | Select int nat "int list"
  | Update int "int option list"
  | Delete int
  | Sum int int nat

record Transaction =
  queries :: "query list"
  keys_to_be_locked :: "(int \<times> string) list"
  aborted :: bool

definition Transaction_init :: Transaction where
  "Transaction_init = \<lparr>queries = [], keys_to_be_locked = [], aborted = False\<rparr>"

definition add_query :: "Transaction \<Rightarrow> query \<Rightarrow> Transaction" where
  "add_query tx q = tx\<lparr>queries := queries tx @ [q]\<rparr>"

text \<open>The keys of a sum query: those of the range that the primary index holds.\<close>

fun sum_pkeys :: "Index \<Rightarrow> nat \<Rightarrow> int list \<Rightarrow> error + int list" where
  "sum_pkeys idx pkey_index [] = Inr []"
| "sum_pkeys idx pkey_index (i # rest) =
     (case locate idx i pkey_index of
        Inl e \<Rightarrow> Inl e
      | Inr None \<Rightarrow> sum_pkeys idx pkey_index rest
      | Inr (Some base_rid_list) \<Rightarrow> bindE (sum_pkeys idx pkey_index rest) (\<lambda>ks. Inr (i # ks)))"

text \<open>
  The lock kind and the primary keys of one query, as the body of the loop of
  \<^verbatim>\<open>preprocessing\<close> computes them. For a select on another column than the primary key the
  dictionary comprehension \<^verbatim>\<open>{v: k for k, v in pkey_rid_map.items()}\<close> raises \<^verbatim>\<open>TypeError\<close>
  as soon as the primary index has an entry (its values are lists); with an empty
  primary index no key is found.
\<close>

definition query_locks :: "Index \<Rightarrow> nat \<Rightarrow> query \<Rightarrow> error + (string \<times> int list)" where
  "query_locks idx pkey_index q =
     (case q of
        Insert args \<Rightarrow> bindE (py_nth args pkey_index) (\<lambda>k. Inr (''w'', [k]))
      | Increment k col \<Rightarrow> bindE (py_nth [k, int col] pkey_index) (\<lambda>k'. Inr (''w'', [k']))
      | Select k key_col query_columns \<Rightarrow>
          if key_col \<noteq> pkey_index then
            bindE (locate idx k key_col) (\<lambda>base_rid_list.
            bindE (py_nth (map_list idx) pkey_index) (\<lambda>pkey_rid_map.
            if pkey_rid_map \<noteq> [] then Inl TypeError
            else (case base_rid_list of None \<Rightarrow> Inl TypeError | Some rids \<Rightarrow> Inr (''r'', []))))
          else Inr (''r'', [k])
      | Update k cols \<Rightarrow> Inr (''w'', [k])
      | Delete k \<Rightarrow> Inr (''w'', [k])
      | Sum start_range end_range aggregate_column_index \<Rightarrow>
          if \<bar>end_range - start_range\<bar> = 0 then Inl ZeroDivisionError
          else
            let step = (end_range - start_range) div \<bar>end_range - start_range\<bar> in
            bindE (sum_pkeys idx pkey_index (py_range start_range end_range step)) (\<lambda>ks.
            Inr (''r'', ks)))"

fun preprocessing_loop :: "Index \<Rightarrow> nat \<Rightarrow> query list \<Rightarrow> (int \<times> string) list \<Rightarrow> (error + unit) \<times> (int \<times> string) list" where
  "preprocessing_loop idx pkey_index [] keys = (Inr (), keys)"
| "preprocessing_loop idx pkey_index (q # rest) keys =
     (case query_locks idx pkey_index q of
        Inl e \<Rightarrow> (Inl e, keys)
      | Inr (lock_type, query_pkeys) \<Rightarrow>
          preprocessing_loop idx pkey_index rest
            (foldl (\<lambda>m k. AList.update k lock_type m) keys query_pkeys))"

text \<open>
  \<^verbatim>\<open>preprocessing\<close>, on the table the transaction latched onto at its first
  \<^verbatim>\<open>add_query\<close>; with no query \<^verbatim>\<open>self.table\<close> is still \<^verbatim>\<open>None\<close>.
\<close>

definition preprocessing :: "Table \<Rightarrow> Transaction \<Rightarrow> (error + unit) \<times> Transaction" where
  "preprocessing t tx =
     (if queries tx = [] then (Inl AttributeError, tx)
      else case preprocessing_loop (index t) (key_index t) (queries tx) (keys_to_be_locked tx) of
             (r, keys) \<Rightarrow> (r, tx\<lparr>keys_to_be_locked := keys\<rparr>))"

text \<open>
  \<^verbatim>\<open>run\<close> starts with \<^verbatim>\<open>preprocessing\<close>; an exception there ends it. What follows (the
  locks of the external \<^verbatim>\<open>readerwriterlock\<close> package and the queries themselves) is the
  parameter \<open>rest\<close>.
\<close>

definition run :: "(Transaction \<Rightarrow> (error + nat) \<times> Transaction) \<Rightarrow> Table \<Rightarrow> Transaction \<Rightarrow> (error + nat) \<times> Transaction" where
  "run rest t tx = seqE (preprocessing t tx) (\<lambda>u tx1. rest tx1)"

section \<open>Database (db.py)\<close>

text \<open>
  \<^verbatim>\<open>create_table\<close> removes the old files of the table and leaves one empty file per
  column (internal and user) and range; then it constructs the \<^verbatim>\<open>Table\<close>.
\<close>

definition create_table_files :: "nat \<Rightarrow> DiskHelper" where
  "create_table_files n =
     \<lparr>files = (\<lambda>(c, column).
        if (c = CHR ''b'' \<or> c = CHR ''t'') \<and> column < NUM_INTERNAL_COLUMN + n then Some [] else None)\<rparr>"

definition create_table :: "nat \<Rightarrow> nat \<Rightarrow> nat \<Rightarrow> nat \<Rightarrow> error + Table" where
  "create_table PAGESIZE CACHE_SIZE n k = Table_init PAGESIZE CACHE_SIZE (create_table_files n) n k"

section \<open>Reading the outcome of a call\<close>

text \<open>
  A call returns when it neither loops for ever nor raises; \<open>result_of\<close> and \<open>state_of\<close>
  are then its value and the state it leaves.
\<close>

definition returns :: "((error + 'a) \<times> 's) option \<Rightarrow> bool" where
  "returns m = (case m of Some (Inr x, s) \<Rightarrow> True | _ \<Rightarrow> False)"

definition result_of :: "((error + 'a) \<times> 's) option \<Rightarrow> 'a" where
  "result_of m = projr (fst (the m))"

definition state_of :: "((error + 'a) \<times> 's) option \<Rightarrow> 's" where
  "state_of m = snd (the m)"


section \<open>Two table states to evaluate on\<close>

text \<open>
  The state of a two-column table with key column 0, pages of 4096 bytes and a cache of
  four pages after \<^verbatim>\<open>insert(1, 10)\<close> and \<^verbatim>\<open>insert(2, 20)\<close>, written out (that it is this
  state is \<open>ex_two_reached\<close> below). Two of the six base pages have been evicted and
  written to their files.
\<close>

definition ex_two :: Table where
  "ex_two =
     \<lparr>key_index = 0, num_columns = 2,
         index =
           \<lparr>num_features = 2, index_created = (replicate 2 False)[0 := True],
              map_list =
                (replicate 2 [])
                [0 := [(Some 1, [[0, 0, 0, 0, 16, 0, 0, 0]]), (Some 2, [[0, 0, 0, 0, 24, 0, 0, 0]])]],
              primary_key_index = 0\<rparr>,
         tcache =
           \<lparr>cache_size = 4,
              cache =
                [((''base'', 0, 2), False,
                  \<lparr>data = 3 # 0 # 0 # 0 # 0 # 0 # 0 # 0 # replicate 4088 0, num_records = 2\<rparr>),
                 ((''base'', 0, 3), True,
                  \<lparr>data = 4 # 0 # 0 # 0 # 0 # 0 # 0 # 0 #
                     replicate 8 0 @
                     0 # 0 # 0 # 0 # 0 # 0 # 0 # 0 # 0 # 0 # 0 # 0 # 0 # 0 # 0 # 0 # replicate 4064 0,
                     num_records = 4\<rparr>),
                 ((''base'', 0, 4), True,
                  \<lparr>data = 4 # 0 # 0 # 0 # 0 # 0 # 0 # 0 #
                     replicate 8 0 @
                     1 # 0 # 0 # 0 # 0 # 0 # 0 # 0 # 2 # 0 # 0 # 0 # 0 # 0 # 0 # 0 # replicate 4064 0,
                     num_records = 4\<rparr>),
                 ((''base'', 0, 5), True,
                  \<lparr>data = 4 # 0 # 0 # 0 # 0 # 0 # 0 # 0 #
                     replicate 8 0 @ 10 # 0 # 0 # 0 # 0 # 0 # 0 # 0 # 20 # 0 # 0 # 0 # 0 # 0 # 0 # 0 # replicate 4064 0,
                     num_records = 4\<rparr>)],
              last_rid = [''tail'' \<mapsto> [0, 0, 0, 0, 0, 0, 0, 0], ''base'' \<mapsto> [0, 0, 0, 0, 24, 0, 0, 0]],
              disk_helper =
                \<lparr>files =
                   (\<lambda>(c, column).
                       if (c = CHR ''b'' \<or> c = CHR ''t'') \<and> column < 6 then Some [] else None)
                   ((CHR ''b'', 2) \<mapsto> 2 # 0 # 0 # 0 # 0 # 0 # 0 # 0 # replicate 4088 0,
                      (CHR ''b'', 3) \<mapsto> 3 # 0 # 0 # 0 # 0 # 0 # 0 # 0 # replicate 8 0 @ 0 # 0 # 0 # 0 # 0 # 0 # 0 # 0 # replicate 4072 0,
                      (CHR ''b'', 4) \<mapsto> 3 # 0 # 0 # 0 # 0 # 0 # 0 # 0 # replicate 8 0 @ 1 # 0 # 0 # 0 # 0 # 0 # 0 # 0 # replicate 4072 0,
                      (CHR ''b'', 5) \<mapsto> 3 # 0 # 0 # 0 # 0 # 0 # 0 # 0 # replicate 8 0 @ 10 # 0 # 0 # 0 # 0 # 0 # 0 # 0 # replicate 4072 0,
                      (CHR ''b'', 0) \<mapsto> 4 # 0 # 0 # 0 # 0 # 0 # 0 # 0 #
                      replicate 8 0 @ 0 # 0 # 0 # 0 # 16 # 0 # 0 # 0 # 0 # 0 # 0 # 0 # 24 # 0 # 0 # 0 # replicate 4064 0,
                      (CHR ''b'', Suc 0) \<mapsto> 4 # 0 # 0 # 0 # 0 # 0 # 0 # 0 #
                      replicate 8 0 @ 255 # 255 # 255 # 255 # 255 # 255 # 255 # 255 # 255 # 255 # 255 # 255 # 255 # 255 # 255 # 255 # replicate 4064 0)\<rparr>\<rparr>,
         merge_queue_matrix = (replicate 2 [[]])[0 := [[], []], Suc 0 := [[], []]], merge_counter = 0,
         closed = False, merge_trigger = False\<rparr>"

text \<open>
  The state of a two-column table with key column 1 after \<^verbatim>\<open>insert(10, 1)\<close>
  (\<open>ex_key1_reached\<close> below).
\<close>

definition ex_key1 :: Table where
  "ex_key1 =
     \<lparr>key_index = Suc 0, num_columns = 2,
         index =
           \<lparr>num_features = 2, index_created = (replicate 2 False)[Suc 0 := True],
              map_list = (replicate 2 [])[Suc 0 := [(Some 1, [[0, 0, 0, 0, 16, 0, 0, 0]])]],
              primary_key_index = Suc 0\<rparr>,
         tcache =
           \<lparr>cache_size = 4,
              cache =
                [((''base'', 0, 2), False,
                  \<lparr>data = 3 # 0 # 0 # 0 # 0 # 0 # 0 # 0 # replicate 4088 0, num_records = 2\<rparr>),
                 ((''base'', 0, 3), True,
                  \<lparr>data = 3 # 0 # 0 # 0 # 0 # 0 # 0 # 0 # replicate 8 0 @ 0 # 0 # 0 # 0 # 0 # 0 # 0 # 0 # replicate 4072 0,
                     num_records = 3\<rparr>),
                 ((''base'', 0, 4), True,
                  \<lparr>data = 3 # 0 # 0 # 0 # 0 # 0 # 0 # 0 # replicate 8 0 @ 10 # 0 # 0 # 0 # 0 # 0 # 0 # 0 # replicate 4072 0,
                     num_records = 3\<rparr>),
                 ((''base'', 0, 5), True,
                  \<lparr>data = 3 # 0 # 0 # 0 # 0 # 0 # 0 # 0 # replicate 8 0 @ 1 # 0 # 0 # 0 # 0 # 0 # 0 # 0 # replicate 4072 0,
                     num_records = 3\<rparr>)],
              last_rid = [''tail'' \<mapsto> [0, 0, 0, 0, 0, 0, 0, 0], ''base'' \<mapsto> [0, 0, 0, 0, 16, 0, 0, 0]],
              disk_helper =
                \<lparr>files =
                   (\<lambda>(c, column).
                       if (c = CHR ''b'' \<or> c = CHR ''t'') \<and> column < 6 then Some [] else None)
                   ((CHR ''b'', 2) \<mapsto> 2 # 0 # 0 # 0 # 0 # 0 # 0 # 0 # replicate 4088 0,
                      (CHR ''b'', 3) \<mapsto> 2 # 0 # 0 # 0 # 0 # 0 # 0 # 0 # replicate 4088 0,
                      (CHR ''b'', 4) \<mapsto> 2 # 0 # 0 # 0 # 0 # 0 # 0 # 0 # replicate 4088 0,
                      (CHR ''b'', 0) \<mapsto> 3 # 0 # 0 # 0 # 0 # 0 # 0 # 0 # replicate 8 0 @ 0 # 0 # 0 # 0 # 16 # 0 # 0 # 0 # replicate 4072 0,
                      (CHR ''b'', 5) \<mapsto> 2 # 0 # 0 # 0 # 0 # 0 # 0 # 0 # replicate 4088 0,
                      (CHR ''b'', Suc 0) \<mapsto> 3 # 0 # 0 # 0 # 0 # 0 # 0 # 0 #
                      replicate 8 0 @
                      255 # 255 # 255 # 255 # 255 # 255 # 255 # 255 # replicate 4072 0)\<rparr>\<rparr>,
         merge_queue_matrix = (replicate 2 [[]])[0 := [[], []], Suc 0 := [[], []]], merge_counter = 0,
         closed = False, merge_trigger = False\<rparr>"

section \<open>Facts about packing and pages\<close>

lemma length_le_bytes [simp]: "length (le_bytes k n) = k"
  by (induction k arbitrary: n) auto

lemma le_val_le_bytes: "n < 256 ^ k \<Longrightarrow> le_val (le_bytes k n) = n"
proof (induction k arbitrary: n)
  case 0
  then show ?case by simp
next
  case (Suc k)
  have "n div 256 < 256 ^ k"
    using Suc.prems by (simp add: less_mult_imp_div_less mult.commute)
  then have "le_val (le_bytes k (n div 256)) = n div 256"
    by (rule Suc.IH)
  moreover have "unat (word_of_nat (n mod 256) :: byte) = n mod 256"
    by (simp add: unat_of_nat)
  ultimately show ?case by simp
qed

lemma le_val_bound: "le_val bs < 256 ^ length bs"
proof (induction bs)
  case Nil
  then show ?case by simp
next
  case (Cons b bs)
  have "unat b < 256"
    using unsigned_less [of b, where ?'a = nat] by simp
  with Cons show ?case by simp
qed

lemma le_bytes_le_val: "length bs = k \<Longrightarrow> le_bytes k (le_val bs) = bs"
proof (induction bs arbitrary: k)
  case Nil
  then show ?case by simp
next
  case (Cons b bs)
  obtain k' where k: "k = Suc k'" and len: "length bs = k'"
    using Cons.prems by (cases k) auto
  have b: "unat b < 256"
    using unsigned_less [of b, where ?'a = nat] by simp
  then have "(unat b + 256 * le_val bs) mod 256 = unat b"
    and "(unat b + 256 * le_val bs) div 256 = le_val bs"
    by simp_all
  with Cons.IH [OF len] k show ?case by simp
qed

lemma slice_bound_nat [simp]: "slice_bound n (int i) = min n i"
  by (simp add: slice_bound_def)

lemma slice_get_nat: "slice_get xs (int a) (int a + int k) = take k (drop a xs)"
proof -
  have e: "int a + int k = int (a + k)" by simp
  show ?thesis
  proof (cases "a \<le> length xs")
    case True
    then show ?thesis
      unfolding slice_get_def Let_def e slice_bound_nat
      by (cases "a + k \<le> length xs") (simp_all add: min_def)
  next
    case False
    then show ?thesis
      unfolding slice_get_def Let_def e slice_bound_nat
      by (simp add: min_def)
  qed
qed

lemma slice_set_nat:
  "a + k \<le> length xs \<Longrightarrow> slice_set xs (int a) (int a + int k) ys = take a xs @ ys @ drop (a + k) xs"
proof -
  assume le: "a + k \<le> length xs"
  have e: "int a + int k = int (a + k)" by simp
  from le show ?thesis
    unfolding slice_set_def Let_def e slice_bound_nat by (simp add: min_def max_def)
qed

lemma unpack_II_pack_II: "pack_II a b = Inr r \<Longrightarrow> unpack_II r = Inr (a, b)"
proof -
  assume p: "pack_II a b = Inr r"
  then have a: "a < 256 ^ 4" and b: "b < 256 ^ 4" and r: "r = le_bytes 4 a @ le_bytes 4 b"
    by (auto simp: pack_II_def split: if_splits)
  show ?thesis
    unfolding unpack_II_def r using le_val_le_bytes [OF a] le_val_le_bytes [OF b] by simp
qed

lemma read_field_nat:
  "read_field P p (int off) =
     (if off + WORDSIZE > P then Inl OutOfRange else Inr (take WORDSIZE (drop off (data p))))"
proof -
  have "(int off + int WORDSIZE > int P) = (off + WORDSIZE > P)" by linarith
  then show ?thesis
    unfolding read_field_def using slice_get_nat [of "data p" off WORDSIZE] by simp
qed

lemma write_field_nat:
  "length w = WORDSIZE \<Longrightarrow> off + WORDSIZE \<le> length (data p) \<Longrightarrow>
   write_field p (int off) w = Inr (p\<lparr>data := take off (data p) @ w @ drop (off + WORDSIZE) (data p)\<rparr>)"
  unfolding write_field_def using slice_set_nat [of off WORDSIZE "data p" w] by simp

text \<open>\<^verbatim>\<open>read_field\<close> raises exactly outside the page.\<close>

lemma read_field_fails_iff:
  "isl (read_field P p off) \<longleftrightarrow> off < 0 \<or> off + int WORDSIZE > int P"
  by (simp add: read_field_def)

text \<open>\<^verbatim>\<open>write_field\<close> raises exactly for a word of the wrong length: the offset is not checked.\<close>

lemma write_field_fails_iff:
  "isl (write_field p off w) \<longleftrightarrow> length w \<noteq> WORDSIZE"
  by (simp add: write_field_def)

text \<open>A write inside the page keeps the length of the buffer.\<close>

lemma write_field_in_bounds_length:
  assumes "length (data p) = P" "0 \<le> off" "off + int WORDSIZE \<le> int P" "length w = WORDSIZE"
  shows "\<exists>p'. write_field p off w = Inr p' \<and> length (data p') = P"
proof -
  obtain n where n: "off = int n" using assms(2) by (metis nat_0_le)
  have le: "n + WORDSIZE \<le> length (data p)" using assms(1,3) n by linarith
  show ?thesis
    unfolding n using write_field_nat [OF assms(4) le] le assms(1,4) by simp
qed

lemma write_field_past_end:
  "length w = WORDSIZE \<Longrightarrow> write_field p (int (length (data p))) w = Inr (p\<lparr>data := data p @ w\<rparr>)"
  by (simp add: write_field_def slice_set_def Let_def)

lemma Page_init_new:
  "P \<noteq> 0 \<Longrightarrow> 8 \<le> P \<Longrightarrow> range_type = ''base'' \<or> range_type = ''tail'' \<Longrightarrow>
   Page_init P range_type [] =
     Inr \<lparr>data = le_bytes 8 (if range_type = ''base'' then 2 else 1) @ replicate (P - 8) 0,
          num_records = (if range_type = ''base'' then 2 else 1)\<rparr>"
proof -
  assume P: "P \<noteq> 0" "8 \<le> P" and rt: "range_type = ''base'' \<or> range_type = ''tail''"
  have w: "write_field \<lparr>data = replicate P 0, num_records = n\<rparr> (int 0) (le_bytes 8 k)
        = Inr \<lparr>data = le_bytes 8 k @ replicate (P - 8) 0, num_records = n\<rparr>" for n k
    using P by (subst write_field_nat) (simp_all add: WORDSIZE_def)
  from rt P show ?thesis
    using w [of 2 2] w [of 1 1] by (auto simp: Page_init_def pack_Q_def Let_def)
qed

section \<open>Evaluation at concrete inputs\<close>

text \<open>
  The rules that run the model on a concrete input inside the simplifier. The weak
  congruence rules make it evaluate a call before the code that follows it.
\<close>

lemma le_bytes_numeral [simp]:
  "le_bytes (numeral k) n = word_of_nat (n mod 256) # le_bytes (pred_numeral k) (n div 256)"
proof -
  have "le_bytes (numeral k) n = le_bytes (Suc (pred_numeral k)) n"
    by (simp only: numeral_eq_Suc)
  then show ?thesis by (simp only: le_bytes.simps)
qed

lemma le_val_replicate_zero [simp]: "le_val (replicate n 0) = 0"
  by (induction n) auto

lemma seqE_simps [simp]: "seqE (Inl e, s) f = (Inl e, s)" "seqE (Inr x, s) f = f x s"
  by (simp_all add: seqE_def)

lemma bindE_simps [simp]: "bindE (Inl e) g = Inl e" "bindE (Inr x) g = g x"
  by (simp_all add: bindE_def)

lemma bindO_simps [simp]:
  "bindO None h = None"
  "bindO (Some (Inl e, s)) h = Some (Inl e, s)"
  "bindO (Some (Inr x, s)) h = h x s"
  by (simp_all add: bindO_def)

lemma seqE_cong_weak: "m = m' \<Longrightarrow> seqE m f = seqE m' f"
  by simp

lemma bindE_cong_weak: "m = m' \<Longrightarrow> bindE m f = bindE m' f"
  by simp

lemma bindO_cong_weak: "m = m' \<Longrightarrow> bindO m f = bindO m' f"
  by simp

lemmas evals =
  Cache_init_def get_last_rids_def get_last_rid_def create_table_files_def open_file_def
  pack_II_def set_entry_def unpack_II_def get_page_def set_page_def private_get_page_def
  read_page_def file_content_def private_set_page_def Page_init_def unpack_from_Q_def
  pack_into_Q_def pack_Q_def alias_write_def write_page_def write_field_def slice_set_def
  slice_bound_def WORDSIZE_def NUM_INTERNAL_COLUMN_def Let_def create_table_def
  Table_init_def Index_init_def last_page_index_def Query_insert_def Table_get_new_rid_def
  get_new_rid_def on_cache_def on_index_def append_queue_def py_nth_def map_insert_def
  map_insert_step_def insert_record_def insert_column_def pack_q_def RID_COLUMN_def
  INDIRECTION_COLUMN_def SCHEMA_ENCODING_COLUMN_def TIMESTAMP_COLUMN_def INVALID_RID_def
  Query_update_def Query_select_def Query_delete_def locate_def select_feature_def
  on_cacheO_def Cache_select_feature_def get_entry_def read_field_def slice_get_def
  base_up_to_date_def is_updated_def unpack_Q_def unpack_q_def walk_chain.simps
  delete_chain.simps Table_delete_def map_delete_def map_change_def map_change_step_def
  update_record_def update_column_def update_schema_def upt_rec merge_pass_def
  merge_queue_def merge_entry_def list_remove_def

lemmas eval_congs =
  if_weak_cong sum.case_cong_weak prod.case_cong_weak option.case_cong_weak
  list.case_cong_weak seqE_cong_weak bindE_cong_weak bindO_cong_weak let_weak_cong

section \<open>Page bounds (C8)\<close>

text \<open>
  C8. The claim: \<^verbatim>\<open>read_field\<close> fails exactly outside the page, and \<^verbatim>\<open>write_field\<close> raises
  for a word of the wrong length and for every offset outside the page. The first holds
  (\<open>read_field_fails_iff\<close>), and a write inside the page keeps the buffer at
  \<^verbatim>\<open>PAGESIZE\<close> bytes (\<open>write_field_in_bounds_length\<close>); but \<^verbatim>\<open>write_field\<close> has no check
  of the offset. Below, on a fresh base page of 4096 bytes, a write of one word at
  offset 4096 returns normally and leaves a buffer of 4104 bytes.
\<close>

theorem write_field_out_of_bounds_accepted:
  "bindE (Page_init 4096 ''base'' []) (\<lambda>p.
   bindE (write_field p 4096 (replicate 8 255)) (\<lambda>p'.
   Inr (length (data p')))) = Inr 4104"
proof -
  have p: "Page_init 4096 ''base'' [] = Inr \<lparr>data = le_bytes 8 2 @ replicate (4096 - 8) 0, num_records = 2\<rparr>"
    using Page_init_new [of 4096 "''base''"] by simp
  have "write_field \<lparr>data = le_bytes 8 2 @ replicate (4096 - 8) 0, num_records = 2\<rparr>
          (int (length (data \<lparr>data = le_bytes 8 2 @ replicate (4096 - 8) 0, num_records = 2\<rparr>)))
          (replicate 8 255)
        = Inr (\<lparr>data = le_bytes 8 2 @ replicate (4096 - 8) 0, num_records = 2\<rparr>
                \<lparr>data := data \<lparr>data = le_bytes 8 2 @ replicate (4096 - 8) 0, num_records = 2\<rparr> @ replicate 8 255\<rparr>)"
    by (rule write_field_past_end) (simp add: WORDSIZE_def)
  then show ?thesis
    unfolding p by (simp add: bindE_def)
qed

section \<open>Last RIDs of a table's files (C6)\<close>

lemma get_last_rid_empty:
  "files d (hd rt, 0) = Some [] \<Longrightarrow> rt \<noteq> [] \<Longrightarrow> P \<noteq> 0 \<Longrightarrow>
   get_last_rid P d rt = pack_II 0 (if rt = ''base'' then 8 else 0)"
  by (cases rt) (auto simp: get_last_rid_def open_file_def)

lemma get_last_rid_nonempty:
  assumes f: "files d (hd rt, 0) = Some content" and rt: "rt \<noteq> []"
    and P: "8 \<le> P" and m: "length content mod P = 0" and ne: "content \<noteq> []"
  shows "get_last_rid P d rt =
     pack_II (length content div P - 1)
             (le_val (take WORDSIZE (drop ((length content div P - 1) * P) content)) * WORDSIZE)"
proof -
  have "P dvd length content" using m by (simp add: mod_eq_0_iff_dvd)
  then obtain q where q: "length content = q * P" by (auto simp: dvd_def mult.commute)
  have q0: "q \<noteq> 0" using q ne by (cases q) auto
  have P0: "P \<noteq> 0" using P by simp
  have d: "length content div P = q" using q P0 by simp
  have "(q - 1) * P + P = q * P" using q0 by (cases q) simp_all
  then have "length (drop ((q - 1) * P) content) = P" using q by simp
  then have len: "length (take WORDSIZE (drop ((q - 1) * P) content)) = 8"
    using P by (simp add: WORDSIZE_def)
  from f rt P0 m ne len show ?thesis
    by (cases rt) (auto simp: get_last_rid_def open_file_def file_content_def d unpack_Q_def Let_def)
qed

text \<open>
  C6, as the code has it. On an empty column-0 file the base RID is (0, 8), one word below
  the first slot (the claim says (0, 16)), and the tail RID is (0, 0). On a non-empty
  file of whole pages the RID is (last page index, counter * WORDSIZE), the counter read
  from word 0 of the last page, when both numbers fit in 32 bits.
\<close>

theorem get_last_rids_by_file:
  assumes "files d (CHR ''b'', 0) = Some fb" and "files d (CHR ''t'', 0) = Some ft"
    and "8 \<le> P" and "length fb mod P = 0" and "length ft mod P = 0"
    and "fb \<noteq> [] \<longrightarrow> length fb div P - 1 < 2 ^ 32
           \<and> le_val (take WORDSIZE (drop ((length fb div P - 1) * P) fb)) * WORDSIZE < 2 ^ 32"
    and "ft \<noteq> [] \<longrightarrow> length ft div P - 1 < 2 ^ 32
           \<and> le_val (take WORDSIZE (drop ((length ft div P - 1) * P) ft)) * WORDSIZE < 2 ^ 32"
  shows "\<exists>b t. get_last_rids P d = Inr (b, t)
     \<and> unpack_II b = Inr (if fb = [] then (0, 8)
          else (length fb div P - 1,
                le_val (take WORDSIZE (drop ((length fb div P - 1) * P) fb)) * WORDSIZE))
     \<and> unpack_II t = Inr (if ft = [] then (0, 0)
          else (length ft div P - 1,
                le_val (take WORDSIZE (drop ((length ft div P - 1) * P) ft)) * WORDSIZE))"
proof -
  have P0: "P \<noteq> 0" using assms(3) by simp
  have b: "\<exists>b. get_last_rid P d ''base'' = Inr b
     \<and> unpack_II b = Inr (if fb = [] then (0, 8)
          else (length fb div P - 1,
                le_val (take WORDSIZE (drop ((length fb div P - 1) * P) fb)) * WORDSIZE))"
  proof (cases "fb = []")
    case True
    then have "get_last_rid P d ''base'' = pack_II 0 8"
      using get_last_rid_empty [of d "''base''" P] assms(1) P0 by simp
    moreover have "pack_II 0 8 = Inr (le_bytes 4 0 @ le_bytes 4 8)" by (simp add: pack_II_def)
    ultimately show ?thesis using True unpack_II_pack_II [of 0 8] by simp
  next
    case False
    then have g: "get_last_rid P d ''base'' = pack_II (length fb div P - 1)
        (le_val (take WORDSIZE (drop ((length fb div P - 1) * P) fb)) * WORDSIZE)"
      using get_last_rid_nonempty [of d "''base''" fb P] assms(1,3,4) by simp
    from False assms(6) obtain r where
      "pack_II (length fb div P - 1)
        (le_val (take WORDSIZE (drop ((length fb div P - 1) * P) fb)) * WORDSIZE) = Inr r"
      by (auto simp: pack_II_def)
    then show ?thesis using g False unpack_II_pack_II by auto
  qed
  have t: "\<exists>t. get_last_rid P d ''tail'' = Inr t
     \<and> unpack_II t = Inr (if ft = [] then (0, 0)
          else (length ft div P - 1,
                le_val (take WORDSIZE (drop ((length ft div P - 1) * P) ft)) * WORDSIZE))"
  proof (cases "ft = []")
    case True
    then have "get_last_rid P d ''tail'' = pack_II 0 0"
      using get_last_rid_empty [of d "''tail''" P] assms(2) P0 by simp
    moreover have "pack_II 0 0 = Inr (le_bytes 4 0 @ le_bytes 4 0)" by (simp add: pack_II_def)
    ultimately show ?thesis using True unpack_II_pack_II [of 0 0] by simp
  next
    case False
    then have g: "get_last_rid P d ''tail'' = pack_II (length ft div P - 1)
        (le_val (take WORDSIZE (drop ((length ft div P - 1) * P) ft)) * WORDSIZE)"
      using get_last_rid_nonempty [of d "''tail''" ft P] assms(2,3,5) by simp
    from False assms(7) obtain r where
      "pack_II (length ft div P - 1)
        (le_val (take WORDSIZE (drop ((length ft div P - 1) * P) ft)) * WORDSIZE) = Inr r"
      by (auto simp: pack_II_def)
    then show ?thesis using g False unpack_II_pack_II by auto
  qed
  from b t show ?thesis by (auto simp: get_last_rids_def bindE_def)
qed

text \<open>
  The theorem at a table whose base column-0 file is empty and whose tail column-0 file
  holds one page of 16 bytes with counter 2.
\<close>

theorem get_last_rids_by_file_witness:
  "\<exists>b t. get_last_rids 16 \<lparr>files = (\<lambda>f. if f = (CHR ''b'', 0) then Some []
                                         else Some (le_bytes 8 2 @ replicate 8 0))\<rparr> = Inr (b, t)
     \<and> unpack_II b = Inr (0, 8) \<and> unpack_II t = Inr (0, 16)"
proof -
  have v: "le_val (le_bytes 8 2) = 2" by (rule le_val_le_bytes) simp
  show ?thesis
    using get_last_rids_by_file [of "\<lparr>files = (\<lambda>f. if f = (CHR ''b'', 0) then Some []
                                         else Some (le_bytes 8 2 @ replicate 8 0))\<rparr>"
        "[]" "le_bytes 8 2 @ replicate 8 0" 16] v
    by (simp add: WORDSIZE_def)
qed

text \<open>On the files \<^verbatim>\<open>create_table\<close> leaves, the last base RID is (0, 8), not (0, 16).\<close>

theorem get_last_rids_empty_base_counterexample:
  "bindE (get_last_rids 4096 (create_table_files 1)) (\<lambda>(b, t). unpack_II b) = Inr (0, 8)
   \<and> bindE (get_last_rids 4096 (create_table_files 1)) (\<lambda>(b, t). unpack_II b) \<noteq> Inr (0, 16)"
  by (simp add: evals cong: eval_congs)

section \<open>Dirtiness after set_entry (C7)\<close>

text \<open>
  C7. The claim: every \<^verbatim>\<open>set_entry\<close> that mutates the page leaves the page cached as dirty,
  so that the mutation is written back on eviction. With \<^verbatim>\<open>is_append\<close> true and no data the
  code bumps the counter in the copy and in the shared buffer, and then returns before
  \<^verbatim>\<open>__set_page\<close>. Below, on the files \<^verbatim>\<open>create_table\<close> leaves and a cache of one page: after
  such a call on column 2 the cached page is clean, its \<^verbatim>\<open>num_records\<close> is still 2 although
  word 0 of its buffer holds 3; after the page of column 3 has taken its place, the page
  read back for column 2 has counter 2 again.
\<close>

theorem set_entry_append_without_data_not_dirty:
  "bindE (Cache_init 4096 1 (create_table_files 1)) (\<lambda>c0.
    case set_entry 4096 c0 ''base'' (le_bytes 4 0 @ le_bytes 4 16) 2 None True of (r1, c1) \<Rightarrow>
    case get_page 4096 c1 ''base'' 0 3 of (r2, c2) \<Rightarrow>
    case get_page 4096 c2 ''base'' 0 2 of (r3, c3) \<Rightarrow>
      Inr (r1, map (\<lambda>(k, d, p). (k, d, num_records p, take 8 (data p))) (cache c1),
           map_sum id (\<lambda>p. take 8 (data p)) r3))
   = Inr (Inr (), [((''base'', 0, 2), False, 2, le_bytes 8 3)], Inr (le_bytes 8 2))"
  by (simp add: evals cong: eval_congs)

section \<open>Lock analysis of a transaction (C5)\<close>

text \<open>
  C5. The claim: a key requested by a reader and by a writer is left mapped to the writer
  kind, in whatever order the queries were added. \<^verbatim>\<open>preprocessing\<close> classifies an update
  as a writer, but \<^verbatim>\<open>keys_to_be_locked[key] = lock_type\<close> overwrites without looking at the
  kind already there. Below, on a fresh two-column table with key column 0: an update of
  key 1 followed by a select of key 1 leaves key 1 mapped to the reader kind, so the
  update would run under a shared lock.
\<close>

theorem preprocessing_update_then_select_reader:
  "map_of (keys_to_be_locked (snd (preprocessing (projr (create_table 4096 4 2 0))
      (add_query (add_query Transaction_init (Update 1 [None, Some 5])) (Select 1 0 [1, 1]))))) 1
   = Some ''r''"
  by (simp add: preprocessing_def query_locks_def add_query_def Transaction_init_def evals cong: eval_congs)

section \<open>A sum over a range of one key inside a transaction (C10)\<close>

lemma preprocessing_loop_sum_zero:
  "isl (fst (preprocessing_loop idx pk (qs1 @ Sum s s c # qs2) keys))
   \<and> ((\<forall>q \<in> set qs1. \<not> isl (query_locks idx pk q)) \<longrightarrow>
        fst (preprocessing_loop idx pk (qs1 @ Sum s s c # qs2) keys) = Inl ZeroDivisionError)"
proof (induction qs1 arbitrary: keys)
  case Nil
  then show ?case by (simp add: query_locks_def)
next
  case (Cons q qs1)
  then show ?case by (cases "query_locks idx pk q") (auto split: prod.splits)
qed

text \<open>
  C10, as the code has it. A transaction that holds a sum query with
  \<^verbatim>\<open>start_range = end_range\<close> never gets past \<^verbatim>\<open>preprocessing\<close>: \<^verbatim>\<open>run\<close> raises there,
  whatever would follow. The exception is the division by zero of
  \<^verbatim>\<open>(end_range - start_range) // abs(end_range - start_range)\<close> whenever the queries
  enqueued before the sum query raise nothing themselves in \<^verbatim>\<open>preprocessing\<close>; otherwise it
  is the exception of the first of them that raises.
\<close>

theorem run_sum_zero_range:
  assumes "queries tx = qs1 @ Sum s s c # qs2"
  shows "isl (fst (run rest t tx))
     \<and> ((\<forall>q \<in> set qs1. \<not> isl (query_locks (index t) (key_index t) q)) \<longrightarrow>
          fst (run rest t tx) = Inl ZeroDivisionError)"
proof -
  obtain r keys' where l: "preprocessing_loop (index t) (key_index t) (qs1 @ Sum s s c # qs2) (keys_to_be_locked tx) = (r, keys')"
    by (cases "preprocessing_loop (index t) (key_index t) (qs1 @ Sum s s c # qs2) (keys_to_be_locked tx)")
  have p: "preprocessing t tx = (r, tx\<lparr>keys_to_be_locked := keys'\<rparr>)"
    using l assms by (simp add: preprocessing_def)
  have i: "isl r" and z: "(\<forall>q \<in> set qs1. \<not> isl (query_locks (index t) (key_index t) q)) \<longrightarrow> r = Inl ZeroDivisionError"
    using preprocessing_loop_sum_zero [of "index t" "key_index t" qs1 s c qs2 "keys_to_be_locked tx"] l
    by simp_all
  from i obtain e where e: "r = Inl e" by (cases r) auto
  show ?thesis using p e z by (auto simp: run_def)
qed

text \<open>A select of key 1, then the sum from 3 to 3 of column 1.\<close>

theorem run_sum_zero_range_witness:
  "fst (run (\<lambda>tx. (Inr 1, tx)) (projr (create_table 4096 4 2 0))
        (add_query (add_query Transaction_init (Select 1 0 [1, 1])) (Sum 3 3 1)))
   = Inl ZeroDivisionError"
  using run_sum_zero_range [of "add_query (add_query Transaction_init (Select 1 0 [1, 1])) (Sum 3 3 1)"
      "[Select 1 0 [1, 1]]" 3 1 "[]" "\<lambda>tx. (Inr 1, tx)" "projr (create_table 4096 4 2 0)"]
  by (simp add: query_locks_def add_query_def Transaction_init_def evals cong: eval_congs)

text \<open>
  The claim as stated (always the division by zero) fails when an earlier query raises
  first: on a fresh two-column table with key column 0, a select on column 1, which has no
  index, followed by the sum from 3 to 3 raises the not-indexed error of \<^verbatim>\<open>locate\<close>.
\<close>

theorem run_sum_zero_range_counterexample:
  "fst (run (\<lambda>tx. (Inr 1, tx)) (projr (create_table 4096 4 2 0))
        (add_query (add_query Transaction_init (Select 1 1 [1, 1])) (Sum 3 3 1)))
   = Inl NotIndexed"
  by (simp add: run_def preprocessing_def query_locks_def add_query_def Transaction_init_def
      evals cong: eval_congs)

section \<open>Facts about the index, the allocator and select\<close>


lemma returns_Some [simp]: "returns (Some (Inr x, s))" "\<not> returns (Some (Inl e, s))" "\<not> returns None"
  by (simp_all add: returns_def)

lemma state_result_Some [simp]: "state_of (Some (r, s)) = s" "result_of (Some (Inr x, s)) = x"
  by (simp_all add: state_of_def result_of_def)














lemma tcache_update_twice [simp]: "t\<lparr>tcache := c\<rparr>\<lparr>tcache := c'\<rparr> = t\<lparr>tcache := c'\<rparr>"
  by simp












section \<open>Select after delete (C3)\<close>

lemma ex_two_reached:
  "bindE (create_table 4096 4 2 0) (\<lambda>t0.
     case Query_insert 4096 t0 [1, 10] 0 of (r1, t1) \<Rightarrow>
     case Query_insert 4096 t1 [2, 20] 0 of (r2, t2) \<Rightarrow> Inr (r1, r2, t2))
   = Inr (Inr (), Inr (), ex_two)"
  by (simp add: ex_two_def evals cong: eval_congs)

lemma ex_key1_reached:
  "bindE (create_table 4096 4 2 1) (\<lambda>t0.
     case Query_insert 4096 t0 [10, 1] 0 of (r1, t1) \<Rightarrow> Inr (r1, t1))
   = Inr (Inr (), ex_key1)"
  by (simp add: ex_key1_def evals cong: eval_congs)

text \<open>
  C3. The claim: after \<^verbatim>\<open>delete(k)\<close>, \<^verbatim>\<open>select(k, key_index, mask)\<close> returns an empty list and
  \<^verbatim>\<open>locate(k, key_index)\<close> returns null. Below, on the table with the records (1, 10) and
  (2, 20): \<^verbatim>\<open>delete(1)\<close> returns, \<^verbatim>\<open>locate(1, 0)\<close> is then \<^verbatim>\<open>None\<close> as the claim says, but
  \<^verbatim>\<open>select(1, 0, [1, 1])\<close> iterates over that \<^verbatim>\<open>None\<close> and raises \<^verbatim>\<open>TypeError\<close>, where its
  docstring promises the empty list on failure.
\<close>

theorem delete_then_select_raises:
  "returns (Query_delete 4096 ex_two 1)
   \<and> locate (index (state_of (Query_delete 4096 ex_two 1))) 1 0 = Inr None
   \<and> fst (the (Query_select 4096 (state_of (Query_delete 4096 ex_two 1)) 1 0 [1, 1])) = Inl TypeError"
  by (simp add: ex_two_def evals cong: eval_congs)

section \<open>Duplicate keys (C4)\<close>





section \<open>Tables whose key is not column 0 (C9)\<close>





end
